theory Spec2Isabelle
  imports Complex_Main "HOL-Library.Char_ord" "HOL-Library.List_Lexorder"
    "HOL-Library.Multiset" "HOL-Library.AList"
begin

section \<open>The world the pipeline runs in\<close>

text \<open>
  The pipeline of \<^verbatim>\<open>pokemon_optimizado2.py\<close> downloads images over HTTP into a
  directory and then transforms every \<^verbatim>\<open>.png\<close> of that directory with PIL. What it
  calls (requests, PIL, the operating system, the executors of concurrent.futures, the
  clock) decides what happens outside the program; those decisions are fields of an
  environment record, every way a call can raise is a value of \<open>exn\<close>, and the text of
  an error of the operating system is the environment's too.

  The file system holds regular files under their path strings and the directories that
  were created; a directory also exists when something lies below it. Paths are joined as
  \<^verbatim>\<open>posixpath.join\<close> joins them, and a file is known by its path string: the model has
  no links and no \<^verbatim>\<open>.\<close> or \<^verbatim>\<open>..\<close> components. What the environment decides for a path
  does not change during a run.

  Tasks run one after the other in the order of submission, and \<^verbatim>\<open>as_completed\<close> hands
  their results to the caller in an order of its own; how many of them overlap in time is
  not part of the model, only that an executor refuses a worker count below 1.
\<close>

datatype exn =
    RequestException string
  | OSError string
  | UnidentifiedImageError string
  | ValueError string
  | IndexError string
  | ZeroDivisionError string

text \<open>\<^verbatim>\<open>isinstance(e, requests.exceptions.RequestException)\<close>: an \<open>OSError\<close> raised by
  \<^verbatim>\<open>open\<close> or \<^verbatim>\<open>write\<close> is not one.\<close>

fun is_RequestException :: "exn \<Rightarrow> bool" where
  "is_RequestException (RequestException m) = True"
| "is_RequestException e = False"

text \<open>\<^verbatim>\<open>str(e)\<close>\<close>

fun str_exn :: "exn \<Rightarrow> string" where
  "str_exn (RequestException m) = m"
| "str_exn (OSError m) = m"
| "str_exn (UnidentifiedImageError m) = m"
| "str_exn (ValueError m) = m"
| "str_exn (IndexError m) = m"
| "str_exn (ZeroDivisionError m) = m"

datatype event =
    HttpGet string "int option"
  | Sleep int
  | Print string

record world =
  files :: "(string \<times> string) list"
  dirs :: "string list"
  trace :: "event list"

subsection \<open>Paths and directories\<close>

text \<open>\<^verbatim>\<open>os.path.join(a, b)\<close> on POSIX: an absolute \<open>b\<close> replaces \<open>a\<close>, and a separator is
  added unless \<open>a\<close> is empty or ends with one.\<close>

definition os_path_join :: "string \<Rightarrow> string \<Rightarrow> string" where
  "os_path_join a b =
     (if b \<noteq> [] \<and> hd b = CHR ''/'' then b
      else if a = [] \<or> last a = CHR ''/'' then a @ b
      else a @ ''/'' @ b)"

text \<open>A directory is kept as the prefix of the paths below it, so that \<^verbatim>\<open>d\<close> and
  \<^verbatim>\<open>d/\<close> are one directory. \<open>below w pre\<close> is what lies at or below that prefix, files
  and created directories, with the prefix taken off; the entries of the directory are
  the first components of these.\<close>

definition dir_prefix :: "string \<Rightarrow> string" where
  "dir_prefix d = os_path_join d []"

definition below :: "world \<Rightarrow> string \<Rightarrow> string list" where
  "below w pre =
     [drop (length pre) p. p \<leftarrow> map fst (files w) @ dirs w, take (length pre) p = pre]"

definition entries :: "world \<Rightarrow> string \<Rightarrow> string list" where
  "entries w d =
     remdups [n. r \<leftarrow> below w (dir_prefix d), n \<leftarrow> [takeWhile (\<lambda>c. c \<noteq> CHR ''/'') r], n \<noteq> []]"

definition is_dir :: "world \<Rightarrow> string \<Rightarrow> bool" where
  "is_dir w d = (dir_prefix d \<noteq> [] \<and> below w (dir_prefix d) \<noteq> [])"

text \<open>A regular file sits at the directory's own path or at one of its ancestors.\<close>

definition file_in_the_way :: "world \<Rightarrow> string \<Rightarrow> bool" where
  "file_in_the_way w d =
     list_ex (\<lambda>p. take (Suc (length p)) (dir_prefix d) = p @ ''/'') (map fst (files w))"

subsection \<open>Formatting \<^verbatim>\<open>f'{i:03d}.png'\<close>\<close>

definition digit_char :: "nat \<Rightarrow> char" where
  "digit_char d = char_of (48 + d)"

fun decimal :: "nat \<Rightarrow> string" where
  "decimal n = (if n < 10 then [digit_char n] else decimal (n div 10) @ [digit_char (n mod 10)])"

declare decimal.simps [simp del]

definition zfill :: "nat \<Rightarrow> string \<Rightarrow> string" where
  "zfill w s = replicate (w - length s) CHR ''0'' @ s"

text \<open>Python pads after the sign: \<^verbatim>\<open>f'{-5:03d}'\<close> is \<^verbatim>\<open>'-05'\<close>.\<close>

definition format_03d :: "int \<Rightarrow> string" where
  "format_03d i = (if i < 0 then CHR ''-'' # zfill 2 (decimal (nat (- i)))
                   else zfill 3 (decimal (nat i)))"

definition file_name_of :: "int \<Rightarrow> string" where
  "file_name_of i = format_03d i @ ''.png''"



subsection \<open>What the environment decides\<close>

text \<open>
  \<open>file_write env p content\<close> is the outcome of
  \<^verbatim>\<open>with open(p, 'wb') as f: f.write(content)\<close>: the file is written; or \<^verbatim>\<open>open\<close>
  raises and the file system stays as it was; or the write raises after \<^verbatim>\<open>open\<close> has
  created or emptied the file, which is left with the bytes that got through. Both
  failures are an \<^verbatim>\<open>OSError\<close> with the given text.
  \<open>makedirs_error\<close>, \<open>listdir_error\<close> and \<open>read_error\<close> are the refusals of the
  operating system (permissions, a full disk) for a path that is otherwise in order, and
  \<open>error_text env operation p\<close> is the text of the \<^verbatim>\<open>OSError\<close> that an operation raises
  for a path that is missing or of the wrong kind. \<open>as_completed env\<close> is the order in
  which the executor hands over the futures, \<open>total_time env\<close> the difference of the two
  readings of \<^verbatim>\<open>time.time()\<close>.
\<close>

datatype write_outcome = Written | CannotOpen string | Interrupted string string

record 'f pool_env =
  file_write :: "string \<Rightarrow> string \<Rightarrow> write_outcome"
  makedirs_error :: "string \<Rightarrow> string option"
  listdir_error :: "string \<Rightarrow> string option"
  read_error :: "string \<Rightarrow> string option"
  error_text :: "string \<Rightarrow> string \<Rightarrow> string"
  as_completed :: "'f list \<Rightarrow> 'f list"
  total_time :: real

text \<open>\<^verbatim>\<open>os.makedirs(d, exist_ok=True)\<close>: it raises for an empty name and for a regular file
  at the path or above it, and where the system refuses; otherwise the directory is
  there afterwards.\<close>

definition os_makedirs :: "('f, 'z) pool_env_scheme \<Rightarrow> string \<Rightarrow> world \<Rightarrow> exn + world" where
  "os_makedirs env d w =
     (if d = [] then Inl (OSError (error_text env ''makedirs'' d))
      else if file_in_the_way w d then Inl (OSError (error_text env ''makedirs'' d))
      else case makedirs_error env d of
             Some m \<Rightarrow> Inl (OSError m)
           | None \<Rightarrow>
               Inr (w\<lparr>dirs := (if dir_prefix d \<in> set (dirs w) then dirs w
                                else dirs w @ [dir_prefix d])\<rparr>))"

text \<open>\<^verbatim>\<open>os.listdir(d)\<close>: it raises when \<open>d\<close> is not a directory, and where the system
  refuses.\<close>

definition os_listdir :: "('f, 'z) pool_env_scheme \<Rightarrow> world \<Rightarrow> string \<Rightarrow> exn + string list" where
  "os_listdir env w d =
     (if \<not> is_dir w d then Inl (OSError (error_text env ''listdir'' d))
      else case listdir_error env d of
             Some m \<Rightarrow> Inl (OSError m)
           | None \<Rightarrow> Inr (entries w d))"

text \<open>Opening a path for reading and reading all of it: it raises when no regular file is
  there, and where the system refuses.\<close>

definition read_file :: "('f, 'z) pool_env_scheme \<Rightarrow> world \<Rightarrow> string \<Rightarrow> exn + string" where
  "read_file env w p =
     (case map_of (files w) p of
        None \<Rightarrow> Inl (OSError (error_text env ''open'' p))
      | Some content \<Rightarrow>
          (case read_error env p of
             Some m \<Rightarrow> Inl (OSError m)
           | None \<Rightarrow> Inr content))"

text \<open>\<^verbatim>\<open>with open(p, 'wb') as f: f.write(content)\<close>\<close>

definition write_file ::
  "('f, 'z) pool_env_scheme \<Rightarrow> string \<Rightarrow> string \<Rightarrow> world \<Rightarrow> (exn + unit) \<times> world" where
  "write_file env p content w =
     (case file_write env p content of
        Written \<Rightarrow> (Inr (), w\<lparr>files := AList.update p content (files w)\<rparr>)
      | CannotOpen m \<Rightarrow> (Inl (OSError m), w)
      | Interrupted m left \<Rightarrow> (Inl (OSError m), w\<lparr>files := AList.update p left (files w)\<rparr>))"

section \<open>Phase A: download\<close>

text \<open>
  \<open>http_get env url attempt\<close> is what \<^verbatim>\<open>requests.get(url)\<close> followed by
  \<^verbatim>\<open>response.raise_for_status()\<close> does at the given attempt: it raises, or gives
  \<^verbatim>\<open>response.content\<close>.
\<close>

type_synonym download_args = "int \<times> string \<times> string \<times> int"

type_synonym download_future = "download_args \<times> (exn + bool \<times> string)"

record fetch_env = "download_future pool_env" +
  http_get :: "string \<Rightarrow> int \<Rightarrow> exn + string"

text \<open>The body of the \<^verbatim>\<open>try\<close> of one download attempt (lines 36 to 41; lines 30 to 35
  of \<^verbatim>\<open>pokemon.py\<close>, which passes no timeout).\<close>

definition try_download ::
  "fetch_env \<Rightarrow> int option \<Rightarrow> string \<Rightarrow> string \<Rightarrow> int \<Rightarrow> world \<Rightarrow> (exn + unit) \<times> world" where
  "try_download env timeout url img_path attempt w =
     (let w1 = w\<lparr>trace := trace w @ [HttpGet url timeout]\<rparr> in
      case http_get env url attempt of
        Inl e \<Rightarrow> (Inl e, w1)
      | Inr content \<Rightarrow> write_file env img_path content w1)"

text \<open>The loop \<^verbatim>\<open>for attempt in range(retry_count)\<close> of \<^verbatim>\<open>download_single_pokemon\<close>,
  over the attempts still to make.\<close>

fun attempt_loop ::
  "fetch_env \<Rightarrow> string \<Rightarrow> string \<Rightarrow> string \<Rightarrow> int \<Rightarrow> int list \<Rightarrow> world
     \<Rightarrow> (exn + bool \<times> string) \<times> world" where
  "attempt_loop env url dir_name file_name retry_count [] w = (Inr (False, file_name), w)"
| "attempt_loop env url dir_name file_name retry_count (attempt # rest) w =
     (case try_download env (Some 10) url (os_path_join dir_name file_name) attempt w of
        (Inr u, w1) \<Rightarrow> (Inr (True, file_name), w1)
      | (Inl e, w1) \<Rightarrow>
          if is_RequestException e then
            if attempt = retry_count - 1 then
              (Inr (False, file_name),
               w1\<lparr>trace := trace w1 @
                 [Print (''  Error descargando '' @ file_name @ '': '' @ str_exn e)]\<rparr>)
            else
              attempt_loop env url dir_name file_name retry_count rest
                (w1\<lparr>trace := trace w1 @ [Sleep 1]\<rparr>)
          else (Inl e, w1))"

fun download_single_pokemon ::
  "fetch_env \<Rightarrow> download_args \<Rightarrow> world \<Rightarrow> (exn + bool \<times> string) \<times> world" where
  "download_single_pokemon env (i, dir_name, base_url, retry_count) w =
     (let file_name = file_name_of i;
          url = base_url @ ''/'' @ file_name
      in attempt_loop env url dir_name file_name retry_count [0..retry_count - 1] w)"

text \<open>\<^verbatim>\<open>executor.submit\<close> for every element of \<^verbatim>\<open>download_args\<close>: every task runs,
  whatever the others do, and its future keeps what it returned or raised.\<close>

fun submit_downloads ::
  "fetch_env \<Rightarrow> download_args list \<Rightarrow> world \<Rightarrow> download_future list \<times> world" where
  "submit_downloads env [] w = ([], w)"
| "submit_downloads env (args # rest) w =
     (case download_single_pokemon env args w of
        (r, w1) \<Rightarrow>
          (case submit_downloads env rest w1 of
             (futures, w2) \<Rightarrow> ((args, r) # futures, w2)))"

text \<open>The loop \<^verbatim>\<open>for future in as_completed(futures)\<close> (lines 71 to 77):
  \<^verbatim>\<open>future.result()\<close> raises again what the task raised.\<close>

fun collect_downloads ::
  "download_future list \<Rightarrow> int \<Rightarrow> string list \<Rightarrow> exn + int \<times> string list" where
  "collect_downloads [] successful_downloads failed_downloads =
     Inr (successful_downloads, failed_downloads)"
| "collect_downloads ((args, Inl e) # rest) successful_downloads failed_downloads = Inl e"
| "collect_downloads ((args, Inr (success, filename)) # rest) successful_downloads failed_downloads =
     (if success then collect_downloads rest (successful_downloads + 1) failed_downloads
      else collect_downloads rest successful_downloads (failed_downloads @ [filename]))"

record download_summary =
  downloads_total :: int
  successful_downloads :: int
  failed_downloads :: "string list"

definition base_url :: string where
  "base_url = ''https://raw.githubusercontent.com/HybridShivam/Pokemon/master/assets/imagesHQ''"

text \<open>\<^verbatim>\<open>download_pokemon\<close> up to the line that prints the failures (lines 55 to 83): the
  values it prints are returned as a \<open>download_summary\<close>. \<^verbatim>\<open>os.makedirs\<close> comes first
  (line 55); \<^verbatim>\<open>ThreadPoolExecutor\<close> (line 67) raises for a worker count below 1; when
  a future raises, the block of the executor still waits for every task before the
  exception leaves the function.\<close>

definition download_pokemon_summary ::
  "fetch_env \<Rightarrow> int \<Rightarrow> string \<Rightarrow> int \<Rightarrow> world \<Rightarrow> (exn + download_summary) \<times> world" where
  "download_pokemon_summary env n dir_name max_workers w =
     (case os_makedirs env dir_name w of
        Inl e \<Rightarrow> (Inl e, w)
      | Inr w0 \<Rightarrow>
          let download_args = map (\<lambda>i. (i, dir_name, base_url, 2)) [1..n] in
          if max_workers \<le> 0 then (Inl (ValueError ''max_workers must be greater than 0''), w0)
          else
            case submit_downloads env download_args w0 of
              (futures, w1) \<Rightarrow>
                (case collect_downloads (as_completed env futures) 0 [] of
                   Inl e \<Rightarrow> (Inl e, w1)
                 | Inr (successful, failed) \<Rightarrow>
                     (Inr \<lparr>downloads_total = n, successful_downloads = successful,
                           failed_downloads = failed\<rparr>, w1)))"

text \<open>The whole of \<^verbatim>\<open>download_pokemon\<close>: the last line printed divides \<open>n\<close> by the
  elapsed time, and the function returns that time.\<close>

definition download_pokemon ::
  "fetch_env \<Rightarrow> int \<Rightarrow> string \<Rightarrow> int \<Rightarrow> world \<Rightarrow> (exn + real) \<times> world" where
  "download_pokemon env n dir_name max_workers w =
     (case download_pokemon_summary env n dir_name max_workers w of
        (Inl e, w1) \<Rightarrow> (Inl e, w1)
      | (Inr summary, w1) \<Rightarrow>
          if total_time env = 0 then (Inl (ZeroDivisionError ''float division by zero''), w1)
          else (Inr (total_time env), w1))"

subsection \<open>The sequential download of \<^verbatim>\<open>pokemon.py\<close>\<close>

text \<open>The loop of lines 25 to 38: one request per id, no retry, no count of failures.\<close>

fun pokemon_download_loop ::
  "fetch_env \<Rightarrow> string \<Rightarrow> int list \<Rightarrow> world \<Rightarrow> (exn + unit) \<times> world" where
  "pokemon_download_loop env dir_name [] w = (Inr (), w)"
| "pokemon_download_loop env dir_name (i # rest) w =
     (let file_name = file_name_of i;
          url = base_url @ ''/'' @ file_name
      in case try_download env None url (os_path_join dir_name file_name) 0 w of
           (Inr u, w1) \<Rightarrow> pokemon_download_loop env dir_name rest w1
         | (Inl e, w1) \<Rightarrow>
             if is_RequestException e then
               pokemon_download_loop env dir_name rest
                 (w1\<lparr>trace := trace w1 @
                    [Print (''  Error descargando '' @ file_name @ '': '' @ str_exn e)]\<rparr>)
             else (Inl e, w1))"

text \<open>\<^verbatim>\<open>os.makedirs\<close> (line 19), the loop, and line 42, which prints \<^verbatim>\<open>total_time/n\<close>.\<close>

definition pokemon_download_pokemon ::
  "fetch_env \<Rightarrow> int \<Rightarrow> string \<Rightarrow> world \<Rightarrow> (exn + real) \<times> world" where
  "pokemon_download_pokemon env n dir_name w =
     (case os_makedirs env dir_name w of
        Inl e \<Rightarrow> (Inl e, w)
      | Inr w0 \<Rightarrow>
          (case pokemon_download_loop env dir_name [1..n] w0 of
             (Inl e, w1) \<Rightarrow> (Inl e, w1)
           | (Inr u, w1) \<Rightarrow>
               if n = 0 then (Inl (ZeroDivisionError ''float division by zero''), w1)
               else (Inr (total_time env), w1)))"

section \<open>Phase B: transform\<close>

text \<open>
  The operations of PIL are fields of the environment, each free to raise:
  \<^verbatim>\<open>Image.open\<close> on the bytes of a file, \<^verbatim>\<open>img.convert(mode)\<close>,
  \<^verbatim>\<open>img.filter(f)\<close>, \<^verbatim>\<open>ImageEnhance.Contrast(img).enhance(factor)\<close>,
  \<^verbatim>\<open>ImageOps.invert(img)\<close>, \<^verbatim>\<open>img.size\<close> and \<^verbatim>\<open>img.resize(size, resample)\<close>.
  That the same call gives the same image is the library's; the model takes it as given.

  \<open>img_save env img p quality optimize\<close> is the outcome of
  \<^verbatim>\<open>img.save(p, quality=quality, optimize=optimize)\<close>: the encoded bytes are in the file
  \<open>p\<close>; or the call raises. \<^verbatim>\<open>Image.save\<close> opens the path \<^verbatim>\<open>w+b\<close> before it encodes, so
  after a call that raised the path is either as it was before (the format of the name
  is unknown, the file could not be opened, or the file that the call created was removed
  again) or holds what had been written when the call failed, which is nothing when an
  earlier file was emptied and the encoder failed at once.
\<close>

datatype image_filter = GaussianBlur int | EDGE_ENHANCE_MORE

datatype resample = NEAREST | BILINEAR | BICUBIC | LANCZOS

datatype save_outcome = Saved string | SaveFailed exn "string option"

text \<open>The results of \<^verbatim>\<open>process_single_image\<close> are Python tuples of two shapes.\<close>

datatype pyval = PyBool bool | PyStr string

type_synonym process_args = "string \<times> string \<times> string"

type_synonym process_future = "process_args \<times> pyval list"

record 'img transform_env = "process_future pool_env" +
  Image_open :: "string \<Rightarrow> exn + 'img"
  img_convert :: "'img \<Rightarrow> string \<Rightarrow> exn + 'img"
  img_filter :: "'img \<Rightarrow> image_filter \<Rightarrow> exn + 'img"
  Contrast_enhance :: "'img \<Rightarrow> real \<Rightarrow> exn + 'img"
  ImageOps_invert :: "'img \<Rightarrow> exn + 'img"
  img_size :: "'img \<Rightarrow> int \<times> int"
  img_resize :: "'img \<Rightarrow> int \<times> int \<Rightarrow> resample \<Rightarrow> exn + 'img"
  img_save :: "'img \<Rightarrow> string \<Rightarrow> int \<Rightarrow> bool \<Rightarrow> save_outcome"

text \<open>Sequencing of statements that may raise: the first exception ends the block.\<close>

definition and_then :: "exn + 'a \<Rightarrow> ('a \<Rightarrow> exn + 'b) \<Rightarrow> exn + 'b" where
  "and_then r f = (case r of Inl e \<Rightarrow> Inl e | Inr x \<Rightarrow> f x)"

text \<open>\<^verbatim>\<open>img.save(saving_path, quality=quality, optimize=optimize)\<close> on the file system.\<close>

definition save_file ::
  "('img, 'z) transform_env_scheme \<Rightarrow> 'img \<Rightarrow> string \<Rightarrow> int \<Rightarrow> bool \<Rightarrow> world
     \<Rightarrow> (exn + unit) \<times> world" where
  "save_file env img saving_path quality optimize w =
     (case img_save env img saving_path quality optimize of
        Saved data \<Rightarrow> (Inr (), w\<lparr>files := AList.update saving_path data (files w)\<rparr>)
      | SaveFailed e None \<Rightarrow> (Inl e, w)
      | SaveFailed e (Some left) \<Rightarrow>
          (Inl e, w\<lparr>files := AList.update saving_path left (files w)\<rparr>))"

text \<open>From \<^verbatim>\<open>Image.open\<close> to the second \<^verbatim>\<open>resize\<close>: lines 103 to 119 of
  \<^verbatim>\<open>process_single_image\<close>, and lines 62 to 73 of \<^verbatim>\<open>pokemon.py\<close>, which are the same
  calls.\<close>

definition filter_chain :: "('img, 'z) transform_env_scheme \<Rightarrow> world \<Rightarrow> string \<Rightarrow> exn + 'img" where
  "filter_chain env w path_origin =
     and_then (read_file env w path_origin) (\<lambda>content.
     and_then (Image_open env content) (\<lambda>img.
     and_then (img_convert env img ''RGB'') (\<lambda>img.
     and_then (img_filter env img (GaussianBlur 10)) (\<lambda>img.
     and_then (Contrast_enhance env img 1.5) (\<lambda>img.
     and_then (img_filter env img EDGE_ENHANCE_MORE) (\<lambda>img.
     and_then (ImageOps_invert env img) (\<lambda>img_inv.
     and_then (img_filter env img_inv (GaussianBlur 5)) (\<lambda>img_inv.
       case img_size env img_inv of
         (width, height) \<Rightarrow>
           and_then (img_resize env img_inv (width * 2, height * 2) LANCZOS) (\<lambda>img_inv.
             img_resize env img_inv (width, height) LANCZOS)))))))))"

text \<open>The body of the \<^verbatim>\<open>try\<close> of \<^verbatim>\<open>process_single_image\<close> (lines 100 to 122).\<close>

definition try_process ::
  "('img, 'z) transform_env_scheme \<Rightarrow> process_args \<Rightarrow> world \<Rightarrow> (exn + unit) \<times> world" where
  "try_process env args w =
     (case args of
        (image_name, dir_origin, dir_name) \<Rightarrow>
          (case filter_chain env w (os_path_join dir_origin image_name) of
             Inl e \<Rightarrow> (Inl e, w)
           | Inr img_inv \<Rightarrow>
               save_file env img_inv (os_path_join dir_name image_name) 95 True w))"

text \<open>\<^verbatim>\<open>except Exception\<close> catches every exception of the model; what a failed
  \<^verbatim>\<open>save\<close> did to the file system stays done.\<close>

definition process_single_image ::
  "('img, 'z) transform_env_scheme \<Rightarrow> process_args \<Rightarrow> world \<Rightarrow> pyval list \<times> world" where
  "process_single_image env args w =
     (case args of
        (image_name, dir_origin, dir_name) \<Rightarrow>
          (case try_process env args w of
             (Inr u, w1) \<Rightarrow> ([PyBool True, PyStr image_name], w1)
           | (Inl e, w1) \<Rightarrow> ([PyBool False, PyStr image_name, PyStr (str_exn e)], w1)))"

text \<open>The body of the \<^verbatim>\<open>try\<close> of the loop of \<^verbatim>\<open>pokemon.py\<close> (lines 61 to 76), which
  saves without \<^verbatim>\<open>optimize\<close>.\<close>

definition pokemon_try_process ::
  "('img, 'z) transform_env_scheme \<Rightarrow> process_args \<Rightarrow> world \<Rightarrow> (exn + unit) \<times> world" where
  "pokemon_try_process env args w =
     (case args of
        (image_name, dir_origin, dir_name) \<Rightarrow>
          (case filter_chain env w (os_path_join dir_origin image_name) of
             Inl e \<Rightarrow> (Inl e, w)
           | Inr img_inv \<Rightarrow>
               save_file env img_inv (os_path_join dir_name image_name) 95 False w))"

subsection \<open>The orchestrator\<close>

text \<open>\<^verbatim>\<open>f.endswith(suffix)\<close>\<close>

definition endswith :: "string \<Rightarrow> string \<Rightarrow> bool" where
  "endswith s suffix =
     (length suffix \<le> length s \<and> drop (length s - length suffix) s = suffix)"

fun submit_processes ::
  "('img, 'z) transform_env_scheme \<Rightarrow> process_args list \<Rightarrow> world
     \<Rightarrow> process_future list \<times> world" where
  "submit_processes env [] w = ([], w)"
| "submit_processes env (args # rest) w =
     (case process_single_image env args w of
        (r, w1) \<Rightarrow>
          (case submit_processes env rest w1 of
             (futures, w2) \<Rightarrow> ((args, r) # futures, w2)))"

text \<open>\<^verbatim>\<open>result[i]\<close> on a tuple, and the truth value of an element.\<close>

definition tuple_index :: "pyval list \<Rightarrow> nat \<Rightarrow> exn + pyval" where
  "tuple_index t i =
     (if i < length t then Inr (t ! i) else Inl (IndexError ''tuple index out of range''))"

fun truthy :: "pyval \<Rightarrow> bool" where
  "truthy (PyBool b) = b"
| "truthy (PyStr s) = (s \<noteq> [])"

text \<open>The loop \<^verbatim>\<open>for future in as_completed(futures)\<close> of \<^verbatim>\<open>process_pokemon\<close>
  (lines 162 to 168).\<close>

fun collect_processes ::
  "process_future list \<Rightarrow> int \<Rightarrow> (pyval \<times> pyval) list \<Rightarrow> exn + int \<times> (pyval \<times> pyval) list" where
  "collect_processes [] successful_processing failed_processing =
     Inr (successful_processing, failed_processing)"
| "collect_processes ((args, result) # rest) successful_processing failed_processing =
     and_then (tuple_index result 0) (\<lambda>r0.
       if truthy r0 then collect_processes rest (successful_processing + 1) failed_processing
       else
         and_then (tuple_index result 1) (\<lambda>r1.
         and_then (tuple_index result 2) (\<lambda>r2.
           collect_processes rest successful_processing (failed_processing @ [(r1, r2)]))))"

record process_summary =
  images_total :: int
  successful_processing :: int
  failed_processing :: "(pyval \<times> pyval) list"

text \<open>\<^verbatim>\<open>sorted([f for f in names if f.endswith('.png')])\<close>\<close>

definition png_images :: "string list \<Rightarrow> string list" where
  "png_images names = sort (filter (\<lambda>f. endswith f ''.png'') names)"

text \<open>\<^verbatim>\<open>process_pokemon\<close> up to the line that prints the failures (lines 145 to 174):
  \<^verbatim>\<open>os.makedirs\<close> of the output directory (line 145), \<^verbatim>\<open>os.listdir\<close> of the input
  directory (line 146), \<^verbatim>\<open>ProcessPoolExecutor\<close> (line 158), which raises for a worker
  count below 1, and the two loops.\<close>

definition process_pokemon_summary ::
  "('img, 'z) transform_env_scheme \<Rightarrow> string \<Rightarrow> string \<Rightarrow> int \<Rightarrow> world
     \<Rightarrow> (exn + process_summary) \<times> world" where
  "process_pokemon_summary env dir_origin dir_name max_workers w =
     (case os_makedirs env dir_name w of
        Inl e \<Rightarrow> (Inl e, w)
      | Inr w0 \<Rightarrow>
          (case os_listdir env w0 dir_origin of
             Inl e \<Rightarrow> (Inl e, w0)
           | Inr names \<Rightarrow>
               let images = png_images names;
                   total = int (length images);
                   process_args = map (\<lambda>image_name. (image_name, dir_origin, dir_name)) images
               in
                 if max_workers \<le> 0
                 then (Inl (ValueError ''max_workers must be greater than 0''), w0)
                 else
                   case submit_processes env process_args w0 of
                     (futures, w1) \<Rightarrow>
                       (case collect_processes (as_completed env futures) 0 [] of
                          Inl e \<Rightarrow> (Inl e, w1)
                        | Inr (successful, failed) \<Rightarrow>
                            (Inr \<lparr>images_total = total, successful_processing = successful,
                                  failed_processing = failed\<rparr>, w1))))"

text \<open>The whole of \<^verbatim>\<open>process_pokemon\<close>: the last line printed divides the number of
  images by the elapsed time, and the function returns that time.\<close>

definition process_pokemon ::
  "('img, 'z) transform_env_scheme \<Rightarrow> string \<Rightarrow> string \<Rightarrow> int \<Rightarrow> world
     \<Rightarrow> (exn + real) \<times> world" where
  "process_pokemon env dir_origin dir_name max_workers w =
     (case process_pokemon_summary env dir_origin dir_name max_workers w of
        (Inl e, w1) \<Rightarrow> (Inl e, w1)
      | (Inr summary, w1) \<Rightarrow>
          if total_time env = 0 then (Inl (ZeroDivisionError ''float division by zero''), w1)
          else (Inr (total_time env), w1))"

section \<open>The transform chain as the specification words it\<close>

text \<open>
  The specification gives the transform as an ordered chain of named steps with fixed
  parameters: decode, colorspace-normalize, blur, contrast-enhance, edge-enhance, invert,
  blur, upscale, downscale to the original size, encode and save. The definitions below
  follow those words, to be compared with \<open>try_process\<close>. A chain runs on the decoded
  image together with the size to go back to, which an upscale sets to the size it found;
  one resampling kernel serves both resizes.
\<close>

datatype step =
    ColorspaceNormalize
  | Blur int
  | ContrastEnhance real
  | EdgeEnhance
  | Invert
  | Upscale int
  | DownscaleToOriginal

fun apply_step ::
  "('img, 'z) transform_env_scheme \<Rightarrow> resample \<Rightarrow> step \<Rightarrow> 'img \<times> int \<times> int
     \<Rightarrow> exn + 'img \<times> int \<times> int" where
  "apply_step env resampling ColorspaceNormalize (img, original) =
     and_then (img_convert env img ''RGB'') (\<lambda>img. Inr (img, original))"
| "apply_step env resampling (Blur radius) (img, original) =
     and_then (img_filter env img (GaussianBlur radius)) (\<lambda>img. Inr (img, original))"
| "apply_step env resampling (ContrastEnhance factor) (img, original) =
     and_then (Contrast_enhance env img factor) (\<lambda>img. Inr (img, original))"
| "apply_step env resampling EdgeEnhance (img, original) =
     and_then (img_filter env img EDGE_ENHANCE_MORE) (\<lambda>img. Inr (img, original))"
| "apply_step env resampling Invert (img, original) =
     and_then (ImageOps_invert env img) (\<lambda>img. Inr (img, original))"
| "apply_step env resampling (Upscale factor) (img, original) =
     (case img_size env img of
        (width, height) \<Rightarrow>
          and_then (img_resize env img (width * factor, height * factor) resampling)
            (\<lambda>img. Inr (img, (width, height))))"
| "apply_step env resampling DownscaleToOriginal (img, original) =
     and_then (img_resize env img original resampling) (\<lambda>img. Inr (img, original))"

fun run_steps ::
  "('img, 'z) transform_env_scheme \<Rightarrow> resample \<Rightarrow> step list \<Rightarrow> 'img \<times> int \<times> int
     \<Rightarrow> exn + 'img \<times> int \<times> int" where
  "run_steps env resampling [] st = Inr st"
| "run_steps env resampling (s # steps) st =
     and_then (apply_step env resampling s st) (run_steps env resampling steps)"

definition spec_chain :: "step list" where
  "spec_chain = [ColorspaceNormalize, Blur 10, ContrastEnhance 1.5, EdgeEnhance, Invert,
                 Blur 5, Upscale 2, DownscaleToOriginal]"

definition spec_transform ::
  "('img, 'z) transform_env_scheme \<Rightarrow> resample \<Rightarrow> step list \<Rightarrow> int \<Rightarrow> bool
     \<Rightarrow> string \<Rightarrow> string \<Rightarrow> string \<Rightarrow> world \<Rightarrow> (exn + unit) \<times> world" where
  "spec_transform env resampling steps quality optimize input_dir output_dir filename w =
     (case and_then (read_file env w (os_path_join input_dir filename)) (\<lambda>content.
           and_then (Image_open env content) (\<lambda>decoded.
             run_steps env resampling steps (decoded, img_size env decoded))) of
        Inl e \<Rightarrow> (Inl e, w)
      | Inr st \<Rightarrow> save_file env (fst st) (os_path_join output_dir filename) quality optimize w)"

section \<open>Observations and example environments\<close>

text \<open>How many requests a run has sent, and the pauses it has made, read off the trace.\<close>

definition requests_made :: "world \<Rightarrow> nat" where
  "requests_made w = length [e \<leftarrow> trace w. case e of HttpGet u t \<Rightarrow> True | _ \<Rightarrow> False]"

definition sleeps_made :: "world \<Rightarrow> int list" where
  "sleeps_made w = concat (map (\<lambda>e. case e of Sleep s \<Rightarrow> [s] | _ \<Rightarrow> []) (trace w))"

text \<open>The paths of the regular files.\<close>

definition file_paths :: "world \<Rightarrow> string set" where
  "file_paths w = fst ` set (files w)"

text \<open>\<^verbatim>\<open>os.path.basename\<close>: what follows the last separator of a path.\<close>

definition basename :: "string \<Rightarrow> string" where
  "basename p = rev (takeWhile (\<lambda>c. c \<noteq> CHR ''/'') (rev p))"

definition empty_world :: world where
  "empty_world = \<lparr>files = [], dirs = [], trace = []\<rparr>"

text \<open>The text of \<^verbatim>\<open>FileNotFoundError\<close>, and of any other error that an example needs
  for a path.\<close>

definition quoted :: "string \<Rightarrow> string" where
  "quoted p = [CHR 0x27] @ p @ [CHR 0x27]"

definition no_such_file :: "string \<Rightarrow> string \<Rightarrow> string" where
  "no_such_file operation p = ''[Errno 2] No such file or directory: '' @ quoted p"

text \<open>A server that times out on the first attempt of every request and answers the
  second; a server that refuses everything; a directory in which no file can be opened
  for writing; a disk that fills up while a file is written.\<close>

definition flaky_env :: fetch_env where
  "flaky_env = \<lparr>file_write = (\<lambda>p content. Written), makedirs_error = (\<lambda>d. None),
     listdir_error = (\<lambda>d. None), read_error = (\<lambda>p. None), error_text = no_such_file,
     as_completed = rev, total_time = 2,
     http_get = (\<lambda>url attempt. if attempt = 0 then Inl (RequestException ''timeout'')
                               else Inr ''PNG'')\<rparr>"

definition dead_env :: fetch_env where
  "dead_env = \<lparr>file_write = (\<lambda>p content. Written), makedirs_error = (\<lambda>d. None),
     listdir_error = (\<lambda>d. None), read_error = (\<lambda>p. None), error_text = no_such_file,
     as_completed = rev, total_time = 2,
     http_get = (\<lambda>url attempt. Inl (RequestException ''404''))\<rparr>"

definition readonly_env :: fetch_env where
  "readonly_env = \<lparr>file_write = (\<lambda>p content.
       CannotOpen (''[Errno 13] Permission denied: '' @ quoted p)),
     makedirs_error = (\<lambda>d. None),
     listdir_error = (\<lambda>d. None), read_error = (\<lambda>p. None), error_text = no_such_file,
     as_completed = rev, total_time = 2,
     http_get = (\<lambda>url attempt. Inr ''PNG'')\<rparr>"

definition full_disk_env :: fetch_env where
  "full_disk_env = \<lparr>file_write = (\<lambda>p content.
       Interrupted ''[Errno 28] No space left on device'' (take 2 content)),
     makedirs_error = (\<lambda>d. None),
     listdir_error = (\<lambda>d. None), read_error = (\<lambda>p. None), error_text = no_such_file,
     as_completed = rev, total_time = 2,
     http_get = (\<lambda>url attempt. if attempt = 0 then Inl (RequestException ''timeout'')
                               else Inr ''PNG'')\<rparr>"

text \<open>The scenario of the specification: ids 1 and 2 are served, id 3 never is.\<close>

definition scenario_env :: fetch_env where
  "scenario_env = \<lparr>file_write = (\<lambda>p content. Written), makedirs_error = (\<lambda>d. None),
     listdir_error = (\<lambda>d. None), read_error = (\<lambda>p. None), error_text = no_such_file,
     as_completed = rev, total_time = 2,
     http_get = (\<lambda>url attempt.
       if url = base_url @ ''/003.png'' then Inl (RequestException ''404 Client Error'')
       else Inr ''PNG'')\<rparr>"

text \<open>Ids 1 and 3 are served and id 2 cannot be written: its task raises, and the tasks
  of the two others still run.\<close>

definition one_unwritable_env :: fetch_env where
  "one_unwritable_env = \<lparr>file_write = (\<lambda>p content.
       if p = ''pokemon_dataset/002.png''
       then CannotOpen (''[Errno 13] Permission denied: '' @ quoted p) else Written),
     makedirs_error = (\<lambda>d. None),
     listdir_error = (\<lambda>d. None), read_error = (\<lambda>p. None), error_text = no_such_file,
     as_completed = rev, total_time = 2,
     http_get = (\<lambda>url attempt. Inr ''PNG'')\<rparr>"

text \<open>The two shapes of a result of \<^verbatim>\<open>process_single_image\<close>.\<close>

fun well_shaped :: "pyval list \<Rightarrow> bool" where
  "well_shaped [PyBool True, PyStr name] = True"
| "well_shaped [PyBool False, PyStr name, PyStr message] = True"
| "well_shaped t = False"

text \<open>A stand-in for PIL whose images are a description of what was done to them, with a
  width and a height; it cannot decode a file that does not start with \<^verbatim>\<open>PNG\<close>, and the
  bytes it saves are that description.\<close>

type_synonym toy_image = "string \<times> int \<times> int"

definition toy_env :: "toy_image transform_env" where
  "toy_env = \<lparr>file_write = (\<lambda>p content. Written), makedirs_error = (\<lambda>d. None),
     listdir_error = (\<lambda>d. None), read_error = (\<lambda>p. None), error_text = no_such_file,
     as_completed = rev, total_time = 2,
     Image_open = (\<lambda>content.
       if take 3 content = ''PNG'' then Inr (content, 4, 3)
       else Inl (UnidentifiedImageError ''cannot identify image file'')),
     img_convert = (\<lambda>(s, wd, ht) mode. Inr (s @ ''|'' @ mode, wd, ht)),
     img_filter = (\<lambda>(s, wd, ht) f.
       Inr (s @ (case f of GaussianBlur r \<Rightarrow> ''|blur'' @ decimal (nat r)
                         | EDGE_ENHANCE_MORE \<Rightarrow> ''|edge''), wd, ht)),
     Contrast_enhance = (\<lambda>(s, wd, ht) factor. Inr (s @ ''|contrast'', wd, ht)),
     ImageOps_invert = (\<lambda>(s, wd, ht). Inr (s @ ''|invert'', wd, ht)),
     img_size = (\<lambda>(s, wd, ht). (wd, ht)),
     img_resize = (\<lambda>(s, wd, ht) (wd', ht') resampling.
       Inr (s @ ''|'' @ decimal (nat wd') @ ''x'' @ decimal (nat ht'), wd', ht')),
     img_save = (\<lambda>(s, wd, ht) p quality optimize.
       Saved (s @ ''|q'' @ decimal (nat quality) @ (if optimize then ''|opt'' else [])))\<rparr>"

text \<open>The same with a disk that is full when an image is saved: the output file is
  opened, which empties it, and the encoder's first write fails.\<close>

definition full_disk_toy_env :: "toy_image transform_env" where
  "full_disk_toy_env =
     toy_env\<lparr>img_save := (\<lambda>img p quality optimize.
       SaveFailed (OSError ''[Errno 28] No space left on device'') (Some []))\<rparr>"

text \<open>A directory with two images, a file that is not an image under an image's name, a
  text file, a subdirectory, and an image in another directory.\<close>

definition dataset_world :: world where
  "dataset_world = \<lparr>files = [(''pokemon_dataset/002.png'', ''PNG2''),
                              (''pokemon_dataset/001.png'', ''PNG1''),
                              (''pokemon_dataset/notes.txt'', ''hello''),
                              (''pokemon_dataset/003.png'', ''corrupt''),
                              (''pokemon_dataset/old/004.png'', ''PNG4''),
                              (''elsewhere/009.png'', ''PNG9'')],
                     dirs = [], trace = []\<rparr>"


text \<open>An image to transform, and the output that an earlier run left for it.\<close>

definition rerun_world :: world where
  "rerun_world = \<lparr>files = [(''pokemon_dataset/001.png'', ''PNG1''),
                            (''pokemon_processed/001.png'', ''earlier output'')],
                   dirs = [], trace = []\<rparr>"

text \<open>The file system that the download of the scenario leaves behind.\<close>

definition downloaded_dataset :: world where
  "downloaded_dataset =
     snd (download_pokemon_summary scenario_env 3 ''pokemon_dataset'' 32 empty_world)"

section \<open>The retry loop of a download\<close>

lemma file_name_of_7: "file_name_of 7 = ''007.png''"
  by code_simp

lemma download_single_pokemon_loop:
  "download_single_pokemon env (i, d, burl, retry_count) w =
     attempt_loop env (burl @ ''/'' @ file_name_of i) d (file_name_of i) retry_count
       [0..retry_count - 1] w"
  by (simp add: Let_def)

declare download_single_pokemon.simps [simp del]

lemma attempt_loop_filename:
  "fst (attempt_loop env url d fnm rc as w) = Inr (s, f) \<Longrightarrow> f = fnm"
proof (induction as arbitrary: w)
  case Nil
  then show ?case by simp
next
  case (Cons a as)
  then show ?case
    by (auto split: prod.splits sum.splits if_splits)
qed

text \<open>One attempt, by what the request and the write of the file do.\<close>

lemma try_download_cases:
  "try_download env t url p a w =
     (case http_get env url a of
        Inl e \<Rightarrow> (Inl e, w\<lparr>trace := trace w @ [HttpGet url t]\<rparr>)
      | Inr content \<Rightarrow>
          (case file_write env p content of
             Written \<Rightarrow>
               (Inr (), w\<lparr>trace := trace w @ [HttpGet url t],
                          files := AList.update p content (files w)\<rparr>)
           | CannotOpen m \<Rightarrow> (Inl (OSError m), w\<lparr>trace := trace w @ [HttpGet url t]\<rparr>)
           | Interrupted m left \<Rightarrow>
               (Inl (OSError m), w\<lparr>trace := trace w @ [HttpGet url t],
                                   files := AList.update p left (files w)\<rparr>)))"
  by (simp add: try_download_def write_file_def Let_def split: sum.splits write_outcome.splits)

lemma try_download_trace_shift:
  "try_download env t url p a (w\<lparr>trace := tr\<rparr>) =
     (fst (try_download env t url p a w),
      (snd (try_download env t url p a w))\<lparr>trace := tr @ [HttpGet url t]\<rparr>)"
  by (simp add: try_download_cases split: sum.splits write_outcome.splits)

lemma try_download_trace:
  "trace (snd (try_download env t url p a w)) = trace w @ [HttpGet url t]"
  by (simp add: try_download_cases split: sum.splits write_outcome.splits)

text \<open>Attempts \<open>a\<close> to \<open>k - 1\<close> raise a request exception: the loop pauses after each of
  them and goes on with attempt \<open>k\<close>.\<close>

lemma attempt_loop_skip:
  assumes fails: "\<forall>j. a \<le> j \<and> j < k \<longrightarrow> http_get env url j = Inl (RequestException (err j))"
    and ak: "a \<le> k" and krc: "k < rc"
  shows "attempt_loop env url d fnm rc [a..rc - 1] w =
         attempt_loop env url d fnm rc [k..rc - 1]
           (w\<lparr>trace := trace w @ concat (replicate (nat (k - a)) [HttpGet url (Some 10), Sleep 1])\<rparr>)"
  using fails ak
proof (induction "nat (k - a)" arbitrary: a w)
  case 0
  then have "a = k" by simp
  then show ?case by simp
next
  case (Suc n)
  then have lt: "a < k" by linarith
  have up: "[a..rc - 1] = a # [a + 1..rc - 1]"
    using lt krc by (simp add: upto_rec1)
  have fa: "http_get env url a = Inl (RequestException (err a))"
    using Suc.prems lt by simp
  have ne: "a \<noteq> rc - 1" using lt krc by simp
  have n: "n = nat (k - (a + 1))" using Suc.hyps(2) by linarith
  have f': "\<forall>j. a + 1 \<le> j \<and> j < k \<longrightarrow> http_get env url j = Inl (RequestException (err j))"
    using Suc.prems by simp
  have k': "a + 1 \<le> k" using lt by simp
  have rep: "nat (k - a) = Suc n" using Suc.hyps(2) by simp
  show ?case
    unfolding up rep
    using Suc.hyps(1)[OF n f' k'] fa ne
    by (simp add: try_download_cases n)
qed

lemma attempt_loop_retry_then_ok:
  assumes fails: "\<forall>j. a \<le> j \<and> j < k \<longrightarrow> http_get env url j = Inl (RequestException (err j))"
    and ok: "http_get env url k = Inr content"
    and wr: "file_write env (os_path_join d fnm) content = Written"
    and ak: "a \<le> k" and krc: "k < rc"
  shows "attempt_loop env url d fnm rc [a..rc - 1] w =
           (Inr (True, fnm),
            w\<lparr>trace := trace w @ concat (replicate (nat (k - a)) [HttpGet url (Some 10), Sleep 1])
                          @ [HttpGet url (Some 10)],
              files := AList.update (os_path_join d fnm) content (files w)\<rparr>)"
proof -
  have up: "[k..rc - 1] = k # [k + 1..rc - 1]"
    using krc by (simp add: upto_rec1)
  show ?thesis
    unfolding attempt_loop_skip[OF fails ak krc] up
    using ok wr by (simp add: try_download_cases)
qed

text \<open>Attempt \<open>k\<close> raises what is not a request exception: the loop ends there.\<close>

lemma attempt_loop_raises_at:
  assumes fails: "\<forall>j. a \<le> j \<and> j < k \<longrightarrow> http_get env url j = Inl (RequestException (err j))"
    and ak: "a \<le> k" and krc: "k < rc"
    and raises: "fst (try_download env (Some 10) url (os_path_join d fnm) k w) = Inl e"
    and other: "\<not> is_RequestException e"
  shows "attempt_loop env url d fnm rc [a..rc - 1] w =
           (Inl e,
            (snd (try_download env (Some 10) url (os_path_join d fnm) k w))
              \<lparr>trace := trace w @ concat (replicate (nat (k - a)) [HttpGet url (Some 10), Sleep 1])
                          @ [HttpGet url (Some 10)]\<rparr>)"
proof -
  have up: "[k..rc - 1] = k # [k + 1..rc - 1]"
    using krc by (simp add: upto_rec1)
  show ?thesis
    unfolding attempt_loop_skip[OF fails ak krc] up
    using raises other by (simp add: try_download_trace_shift)
qed

lemma attempt_loop_all_fail:
  assumes fails: "\<forall>j. a \<le> j \<and> j < rc \<longrightarrow> http_get env url j = Inl (RequestException (err j))"
    and arc: "a < rc"
  shows "attempt_loop env url d fnm rc [a..rc - 1] w =
           (Inr (False, fnm),
            w\<lparr>trace := trace w @ concat (replicate (nat (rc - 1 - a)) [HttpGet url (Some 10), Sleep 1])
                          @ [HttpGet url (Some 10),
                             Print (''  Error descargando '' @ fnm @ '': '' @ err (rc - 1))]\<rparr>)"
proof -
  have f': "\<forall>j. a \<le> j \<and> j < rc - 1 \<longrightarrow> http_get env url j = Inl (RequestException (err j))"
    using fails by simp
  have ak: "a \<le> rc - 1" and krc: "rc - 1 < rc" using arc by simp_all
  have last: "http_get env url (rc - 1) = Inl (RequestException (err (rc - 1)))"
    using fails arc by simp
  show ?thesis
    unfolding attempt_loop_skip[OF f' ak krc]
    using last by (simp add: try_download_cases)
qed

lemma count_gets_rounds:
  "length [e \<leftarrow> concat (replicate n [HttpGet u t, Sleep s]).
             case e of HttpGet u t \<Rightarrow> True | _ \<Rightarrow> False] = n"
  by (induction n) auto

lemma sleeps_rounds:
  "concat (map (\<lambda>e. case e of Sleep s \<Rightarrow> [s] | _ \<Rightarrow> [])
             (concat (replicate n [HttpGet u t, Sleep s]))) = replicate n s"
  by (induction n) auto

text \<open>
  Claim C2, as amended. A download is allowed \<open>retry_count \<ge> 1\<close> attempts. If its first
  \<open>k - 1\<close> attempts raise a request exception and attempt \<open>k \<le> retry_count\<close> gets the
  image and writes the file, it returns success, having sent exactly \<open>k\<close> requests with a
  pause of one second after each failed one. If every attempt raises a request exception
  it returns failure, having sent exactly \<open>retry_count\<close> requests, with a pause between
  consecutive ones and none after the last. If its first \<open>k - 1\<close> attempts raise a request
  exception and attempt \<open>k\<close> raises anything else, the attempt is not repeated: the
  exception leaves the task after \<open>k\<close> requests, and the task returns neither success nor
  failure. That is what an attempt does that gets the image and fails to write the file:
  it raises an \<^verbatim>\<open>OSError\<close>.
\<close>

theorem retry_wrapper_attempts:
  fixes env :: fetch_env and i retry_count :: int and burl d :: string and w :: world
  defines "file_name \<equiv> file_name_of i"
  defines "url \<equiv> burl @ ''/'' @ file_name_of i"
  defines "img_path \<equiv> os_path_join d (file_name_of i)"
  defines "run \<equiv> download_single_pokemon env (i, d, burl, retry_count) w"
  shows "(1 \<le> k \<and> k \<le> retry_count
           \<and> (\<forall>j. 0 \<le> j \<and> j < k - 1 \<longrightarrow> http_get env url j = Inl (RequestException (err j)))
           \<and> http_get env url (k - 1) = Inr content
           \<and> file_write env img_path content = Written
         \<longrightarrow> fst run = Inr (True, file_name)
             \<and> trace (snd run) = trace w
                  @ concat (replicate (nat (k - 1)) [HttpGet url (Some 10), Sleep 1])
                  @ [HttpGet url (Some 10)]
             \<and> int (requests_made (snd run)) = int (requests_made w) + k
             \<and> sleeps_made (snd run) = sleeps_made w @ replicate (nat (k - 1)) 1
             \<and> map_of (files (snd run)) img_path = Some content)
       \<and> (1 \<le> retry_count
           \<and> (\<forall>j. 0 \<le> j \<and> j < retry_count \<longrightarrow> http_get env url j = Inl (RequestException (err j)))
         \<longrightarrow> fst run = Inr (False, file_name)
             \<and> trace (snd run) = trace w
                  @ concat (replicate (nat (retry_count - 1)) [HttpGet url (Some 10), Sleep 1])
                  @ [HttpGet url (Some 10),
                     Print (''  Error descargando '' @ file_name @ '': '' @ err (retry_count - 1))]
             \<and> int (requests_made (snd run)) = int (requests_made w) + retry_count
             \<and> sleeps_made (snd run) = sleeps_made w @ replicate (nat (retry_count - 1)) 1
             \<and> files (snd run) = files w)
       \<and> (1 \<le> k \<and> k \<le> retry_count
           \<and> (\<forall>j. 0 \<le> j \<and> j < k - 1 \<longrightarrow> http_get env url j = Inl (RequestException (err j)))
           \<and> fst (try_download env (Some 10) url img_path (k - 1) w) = Inl e
           \<and> \<not> is_RequestException e
         \<longrightarrow> fst run = Inl e
             \<and> trace (snd run) = trace w
                  @ concat (replicate (nat (k - 1)) [HttpGet url (Some 10), Sleep 1])
                  @ [HttpGet url (Some 10)]
             \<and> int (requests_made (snd run)) = int (requests_made w) + k
             \<and> sleeps_made (snd run) = sleeps_made w @ replicate (nat (k - 1)) 1
             \<and> files (snd run) = files (snd (try_download env (Some 10) url img_path (k - 1) w)))
       \<and> (http_get env url a = Inr content \<and> file_write env img_path content \<noteq> Written
         \<longrightarrow> (\<exists>m. fst (try_download env (Some 10) url img_path a w) = Inl (OSError m)))"
proof (intro conjI impI)
  assume h: "1 \<le> k \<and> k \<le> retry_count
           \<and> (\<forall>j. 0 \<le> j \<and> j < k - 1 \<longrightarrow> http_get env url j = Inl (RequestException (err j)))
           \<and> http_get env url (k - 1) = Inr content
           \<and> file_write env img_path content = Written"
  have run: "run = (Inr (True, file_name),
            w\<lparr>trace := trace w @ concat (replicate (nat (k - 1)) [HttpGet url (Some 10), Sleep 1])
                          @ [HttpGet url (Some 10)],
              files := AList.update img_path content (files w)\<rparr>)"
    unfolding run_def download_single_pokemon_loop
    using attempt_loop_retry_then_ok[of 0 "k - 1" env url err content d file_name retry_count w] h
    by (simp add: file_name_def url_def img_path_def)
  show "fst run = Inr (True, file_name)" by (simp add: run)
  show "trace (snd run) = trace w
                  @ concat (replicate (nat (k - 1)) [HttpGet url (Some 10), Sleep 1])
                  @ [HttpGet url (Some 10)]" by (simp add: run)
  show "int (requests_made (snd run)) = int (requests_made w) + k"
    using h by (simp add: run requests_made_def count_gets_rounds)
  show "sleeps_made (snd run) = sleeps_made w @ replicate (nat (k - 1)) 1"
    by (simp add: run sleeps_made_def sleeps_rounds)
  show "map_of (files (snd run)) img_path = Some content"
    by (simp add: run update_conv')
next
  assume h: "1 \<le> retry_count
           \<and> (\<forall>j. 0 \<le> j \<and> j < retry_count \<longrightarrow> http_get env url j = Inl (RequestException (err j)))"
  have run: "run = (Inr (False, file_name),
            w\<lparr>trace := trace w @ concat (replicate (nat (retry_count - 1)) [HttpGet url (Some 10), Sleep 1])
                          @ [HttpGet url (Some 10),
                             Print (''  Error descargando '' @ file_name @ '': '' @ err (retry_count - 1))]\<rparr>)"
    unfolding run_def download_single_pokemon_loop
    using attempt_loop_all_fail[of 0 retry_count env url err d file_name w] h
    by (simp add: file_name_def url_def)
  show "fst run = Inr (False, file_name)" by (simp add: run)
  show "trace (snd run) = trace w
                  @ concat (replicate (nat (retry_count - 1)) [HttpGet url (Some 10), Sleep 1])
                  @ [HttpGet url (Some 10),
                     Print (''  Error descargando '' @ file_name @ '': '' @ err (retry_count - 1))]"
    by (simp add: run)
  show "int (requests_made (snd run)) = int (requests_made w) + retry_count"
    using h by (simp add: run requests_made_def count_gets_rounds)
  show "sleeps_made (snd run) = sleeps_made w @ replicate (nat (retry_count - 1)) 1"
    by (simp add: run sleeps_made_def sleeps_rounds)
  show "files (snd run) = files w" by (simp add: run)
next
  assume h: "1 \<le> k \<and> k \<le> retry_count
           \<and> (\<forall>j. 0 \<le> j \<and> j < k - 1 \<longrightarrow> http_get env url j = Inl (RequestException (err j)))
           \<and> fst (try_download env (Some 10) url img_path (k - 1) w) = Inl e
           \<and> \<not> is_RequestException e"
  have run: "run = (Inl e,
            (snd (try_download env (Some 10) url img_path (k - 1) w))
              \<lparr>trace := trace w @ concat (replicate (nat (k - 1)) [HttpGet url (Some 10), Sleep 1])
                          @ [HttpGet url (Some 10)]\<rparr>)"
    unfolding run_def download_single_pokemon_loop
    using attempt_loop_raises_at[of 0 "k - 1" env url err retry_count d file_name w e] h
    by (simp add: file_name_def url_def img_path_def)
  show "fst run = Inl e" by (simp add: run)
  show "trace (snd run) = trace w
                  @ concat (replicate (nat (k - 1)) [HttpGet url (Some 10), Sleep 1])
                  @ [HttpGet url (Some 10)]" by (simp add: run)
  show "int (requests_made (snd run)) = int (requests_made w) + k"
    using h by (simp add: run requests_made_def count_gets_rounds)
  show "sleeps_made (snd run) = sleeps_made w @ replicate (nat (k - 1)) 1"
    by (simp add: run sleeps_made_def sleeps_rounds)
  show "files (snd run) = files (snd (try_download env (Some 10) url img_path (k - 1) w))"
    by (simp add: run)
next
  assume h: "http_get env url a = Inr content \<and> file_write env img_path content \<noteq> Written"
  then show "\<exists>m. fst (try_download env (Some 10) url img_path a w) = Inl (OSError m)"
    by (cases "file_write env img_path content") (simp_all add: try_download_cases)
qed

theorem retry_wrapper_attempts_witness:
  "download_single_pokemon flaky_env (7, ''d'', ''http://h'', 2) empty_world =
     (Inr (True, ''007.png''),
      \<lparr>files = [(''d/007.png'', ''PNG'')], dirs = [],
       trace = [HttpGet ''http://h/007.png'' (Some 10), Sleep 1,
                HttpGet ''http://h/007.png'' (Some 10)]\<rparr>)
   \<and> requests_made (snd (download_single_pokemon flaky_env (7, ''d'', ''http://h'', 2) empty_world)) = 2
   \<and> download_single_pokemon dead_env (7, ''d'', ''http://h'', 2) empty_world =
     (Inr (False, ''007.png''),
      \<lparr>files = [], dirs = [],
       trace = [HttpGet ''http://h/007.png'' (Some 10), Sleep 1,
                HttpGet ''http://h/007.png'' (Some 10),
                Print ''  Error descargando 007.png: 404'']\<rparr>)
   \<and> requests_made (snd (download_single_pokemon dead_env (7, ''d'', ''http://h'', 2) empty_world)) = 2
   \<and> fst (download_single_pokemon full_disk_env (7, ''d'', ''http://h'', 2) empty_world)
       = Inl (OSError ''[Errno 28] No space left on device'')
   \<and> requests_made (snd (download_single_pokemon full_disk_env (7, ''d'', ''http://h'', 2) empty_world)) = 2
   \<and> sleeps_made (snd (download_single_pokemon full_disk_env (7, ''d'', ''http://h'', 2) empty_world)) = [1]
   \<and> files (snd (download_single_pokemon full_disk_env (7, ''d'', ''http://h'', 2) empty_world))
       = [(''d/007.png'', ''PN'')]
   \<and> (\<exists>m. fst (try_download readonly_env (Some 10) ''http://h/007.png'' ''d/007.png'' 0 empty_world)
            = Inl (OSError m))"
proof -
  let ?url = "''http://h'' @ ''/'' @ file_name_of 7"
  let ?path = "os_path_join ''d'' (file_name_of 7)"
  have path: "?path = ''d/007.png''" by code_simp
  have a1: "(1::int) \<le> 2 \<and> (2::int) \<le> 2
      \<and> (\<forall>j. 0 \<le> j \<and> j < 2 - 1 \<longrightarrow>
            http_get flaky_env ?url j = Inl (RequestException ((\<lambda>j. ''timeout'') j)))
      \<and> http_get flaky_env ?url (2 - 1) = Inr ''PNG''
      \<and> file_write flaky_env ?path ''PNG'' = Written"
    by (simp add: flaky_env_def)
  have a2: "(1::int) \<le> 2
      \<and> (\<forall>j. 0 \<le> j \<and> j < 2 \<longrightarrow>
            http_get dead_env ?url j = Inl (RequestException ((\<lambda>j. ''404'') j)))"
    by (simp add: dead_env_def)
  have t3: "fst (try_download full_disk_env (Some 10) ?url ?path (2 - 1) empty_world)
      = Inl (OSError ''[Errno 28] No space left on device'')"
    by (simp add: try_download_cases full_disk_env_def)
  have f3: "files (snd (try_download full_disk_env (Some 10) ?url ?path (2 - 1) empty_world))
      = [(''d/007.png'', ''PN'')]"
    unfolding path by (simp add: try_download_cases full_disk_env_def empty_world_def)
  have a3: "(1::int) \<le> 2 \<and> (2::int) \<le> 2
      \<and> (\<forall>j. 0 \<le> j \<and> j < 2 - 1 \<longrightarrow>
            http_get full_disk_env ?url j = Inl (RequestException ((\<lambda>j. ''timeout'') j)))
      \<and> fst (try_download full_disk_env (Some 10) ?url ?path (2 - 1) empty_world)
          = Inl (OSError ''[Errno 28] No space left on device'')
      \<and> \<not> is_RequestException (OSError ''[Errno 28] No space left on device'')"
    using t3 by (simp add: full_disk_env_def)
  have a4: "http_get readonly_env ?url 0 = Inr ''PNG''
      \<and> file_write readonly_env ?path ''PNG'' \<noteq> Written"
    by (simp add: readonly_env_def)
  have two: "nat (2 - 1) = Suc 0" by simp
  note ok = retry_wrapper_attempts[of 2 2 flaky_env "''http://h''" 7 "\<lambda>j. ''timeout''" "''PNG''" "''d''"
       empty_world, THEN conjunct1, rule_format, OF a1]
  note ko = retry_wrapper_attempts[of 2 2 dead_env "''http://h''" 7 "\<lambda>j. ''404''" "''PNG''" "''d''"
       empty_world, THEN conjunct2, THEN conjunct1, rule_format, OF a2]
  note raised = retry_wrapper_attempts[where k = 2 and retry_count = 2 and env = full_disk_env
       and burl = "''http://h''" and i = 7 and err = "\<lambda>j. ''timeout''" and d = "''d''"
       and w = empty_world and e = "OSError ''[Errno 28] No space left on device''",
       THEN conjunct2, THEN conjunct2, THEN conjunct1, rule_format, OF a3]
  note unwritten = retry_wrapper_attempts[where env = readonly_env
       and burl = "''http://h''" and i = 7 and d = "''d''" and a = 0 and content = "''PNG''"
       and w = empty_world,
       THEN conjunct2, THEN conjunct2, THEN conjunct2, rule_format, OF a4]
  have f1: "files (snd (download_single_pokemon flaky_env (7, ''d'', ''http://h'', 2) empty_world))
     = [(''d/007.png'', ''PNG'')]"
    by code_simp
  have d1: "dirs (snd (download_single_pokemon flaky_env (7, ''d'', ''http://h'', 2) empty_world)) = []"
    by code_simp
  have d2: "dirs (snd (download_single_pokemon dead_env (7, ''d'', ''http://h'', 2) empty_world)) = []"
    by code_simp
  have c1: "download_single_pokemon flaky_env (7, ''d'', ''http://h'', 2) empty_world =
     (Inr (True, ''007.png''),
      \<lparr>files = [(''d/007.png'', ''PNG'')], dirs = [],
       trace = [HttpGet ''http://h/007.png'' (Some 10), Sleep 1,
                HttpGet ''http://h/007.png'' (Some 10)]\<rparr>)"
    using ok f1 d1
    by (simp add: file_name_of_7 empty_world_def prod_eq_iff two world.equality)
  have c2: "requests_made (snd (download_single_pokemon flaky_env (7, ''d'', ''http://h'', 2) empty_world)) = 2"
    using ok by (simp add: empty_world_def requests_made_def)
  have c3: "download_single_pokemon dead_env (7, ''d'', ''http://h'', 2) empty_world =
     (Inr (False, ''007.png''),
      \<lparr>files = [], dirs = [],
       trace = [HttpGet ''http://h/007.png'' (Some 10), Sleep 1,
                HttpGet ''http://h/007.png'' (Some 10),
                Print ''  Error descargando 007.png: 404'']\<rparr>)"
    using ko d2
    by (simp add: file_name_of_7 empty_world_def prod_eq_iff two world.equality)
  have c4: "requests_made (snd (download_single_pokemon dead_env (7, ''d'', ''http://h'', 2) empty_world)) = 2"
    using ko by (simp add: empty_world_def requests_made_def)
  have c5: "fst (download_single_pokemon full_disk_env (7, ''d'', ''http://h'', 2) empty_world)
       = Inl (OSError ''[Errno 28] No space left on device'')"
    using raised by simp
  have c6: "requests_made (snd (download_single_pokemon full_disk_env (7, ''d'', ''http://h'', 2) empty_world)) = 2"
    using raised by (simp add: empty_world_def requests_made_def)
  have c7: "sleeps_made (snd (download_single_pokemon full_disk_env (7, ''d'', ''http://h'', 2) empty_world)) = [1]"
    using raised by (simp add: empty_world_def sleeps_made_def two)
  have c8: "files (snd (download_single_pokemon full_disk_env (7, ''d'', ''http://h'', 2) empty_world))
       = [(''d/007.png'', ''PN'')]"
    using raised f3 by simp
  have c9: "\<exists>m. fst (try_download readonly_env (Some 10) ''http://h/007.png'' ''d/007.png'' 0 empty_world)
            = Inl (OSError m)"
    using unwritten unfolding path by (simp add: file_name_of_7)
  show ?thesis
    by (intro conjI) (rule c1 c2 c3 c4 c5 c6 c7 c8 c9)+
qed

text \<open>The claim as stated fails for a download whose file cannot be written: each of its
  two attempts would fail, yet one request is sent, and the task returns no failure
  result: it raises.\<close>

theorem failed_write_not_retried_counterexample:
  "download_single_pokemon readonly_env (7, ''pokemon_dataset'', ''http://h'', 2) empty_world
     = (Inl (OSError (''[Errno 13] Permission denied: '' @ quoted ''pokemon_dataset/007.png'')),
        \<lparr>files = [], dirs = [], trace = [HttpGet ''http://h/007.png'' (Some 10)]\<rparr>)
   \<and> requests_made
        (snd (download_single_pokemon readonly_env (7, ''pokemon_dataset'', ''http://h'', 2)
                empty_world)) = 1"
  by code_simp

text \<open>
  Claim C9. With a retry count of 0 the loop body never runs: no request is sent, no file
  is written, and the result is the failure \<open>(False, file_name)\<close>. For every retry count,
  the name in a returned result, success or failure, is the zero-padded name of the id.
\<close>

theorem zero_retries_and_filename:
  "download_single_pokemon env (i, d, burl, 0) w = (Inr (False, file_name_of i), w)
   \<and> (\<forall>retry_count success filename.
        fst (download_single_pokemon env (i, d, burl, retry_count) w) = Inr (success, filename)
        \<longrightarrow> filename = file_name_of i)"
proof (intro conjI allI impI)
  show "download_single_pokemon env (i, d, burl, 0) w = (Inr (False, file_name_of i), w)"
    unfolding download_single_pokemon_loop by simp
next
  fix retry_count success filename
  assume "fst (download_single_pokemon env (i, d, burl, retry_count) w) = Inr (success, filename)"
  then show "filename = file_name_of i"
    unfolding download_single_pokemon_loop by (rule attempt_loop_filename)
qed

theorem zero_retries_and_filename_witness:
  "download_single_pokemon flaky_env (7, ''d'', ''http://h'', 0) empty_world
     = (Inr (False, ''007.png''), empty_world)
   \<and> fst (download_single_pokemon flaky_env (7, ''d'', ''http://h'', 2) empty_world)
       = Inr (True, ''007.png'')
   \<and> file_name_of 7 = ''007.png''"
proof -
  have r: "fst (download_single_pokemon flaky_env (7, ''d'', ''http://h'', 2) empty_world)
       = Inr (True, ''007.png'')"
    by code_simp
  note z = zero_retries_and_filename[of flaky_env 7 "''d''" "''http://h''" empty_world]
  from z have z0: "download_single_pokemon flaky_env (7, ''d'', ''http://h'', 0) empty_world
     = (Inr (False, file_name_of 7), empty_world)"
    by (rule conjunct1)
  have c: "file_name_of 7 = ''007.png''"
    using z[THEN conjunct2, rule_format, OF r] by (rule sym)
  have z0': "download_single_pokemon flaky_env (7, ''d'', ''http://h'', 0) empty_world
     = (Inr (False, ''007.png''), empty_world)"
    using z0 unfolding c .
  show ?thesis by (intro conjI) (rule z0' r c)+
qed

section \<open>Different ids have different file names\<close>











lemma file_name_of_png: "endswith (file_name_of i) ''.png''"
  by (simp add: endswith_def file_name_of_def)




section \<open>Paths\<close>

text \<open>A name without a separator is joined to a directory by appending it to the
  directory's prefix, and is the last component of the path.\<close>

lemma os_path_join_name:
  "CHR ''/'' \<notin> set b \<Longrightarrow> os_path_join d b = dir_prefix d @ b"
  by (cases b) (auto simp: os_path_join_def dir_prefix_def)

lemma dir_prefix_ends: "dir_prefix d = [] \<or> last (dir_prefix d) = CHR ''/''"
  by (simp add: dir_prefix_def os_path_join_def)

lemma basename_join:
  assumes "CHR ''/'' \<notin> set b"
  shows "basename (os_path_join d b) = b"
proof -
  have tw: "takeWhile (\<lambda>c. c \<noteq> CHR ''/'') (rev (dir_prefix d)) = []"
    using dir_prefix_ends[of d] by (cases "rev (dir_prefix d)") (auto simp: last_rev hd_rev)
  have "takeWhile (\<lambda>c. c \<noteq> CHR ''/'') (rev b @ rev (dir_prefix d)) = rev b"
    using assms tw by (subst takeWhile_append2) auto
  then show ?thesis
    unfolding os_path_join_name[OF assms] basename_def by simp
qed

lemma os_path_join_inj:
  assumes "CHR ''/'' \<notin> set a" and "CHR ''/'' \<notin> set b"
    and "os_path_join d a = os_path_join d' b"
  shows "a = b"
  using basename_join[OF assms(1), of d] basename_join[OF assms(2), of d'] assms(3) by simp

lemma entries_iff:
  "nm \<in> set (entries w d) \<longleftrightarrow>
     nm \<noteq> [] \<and> (\<exists>p \<in> file_paths w \<union> set (dirs w).
        take (length (dir_prefix d)) p = dir_prefix d
        \<and> takeWhile (\<lambda>c. c \<noteq> CHR ''/'') (drop (length (dir_prefix d)) p) = nm)"
  by (auto simp: entries_def below_def file_paths_def)

lemma entries_distinct: "distinct (entries w d)"
  by (simp add: entries_def)

lemma entries_no_slash: "nm \<in> set (entries w d) \<Longrightarrow> CHR ''/'' \<notin> set nm"
  unfolding entries_iff by (auto dest: set_takeWhileD)




lemma os_makedirs_trace: "os_makedirs env d w = Inr w0 \<Longrightarrow> trace w0 = trace w"
  by (auto simp: os_makedirs_def split: if_splits option.splits)



section \<open>The download phase as a whole\<close>

text \<open>What a download returns or raises does not depend on the world it starts in, so the
  futures are the tasks' results on the world that \<^verbatim>\<open>os.makedirs\<close> left.\<close>

lemma try_download_fst_indep:
  "fst (try_download env t url p a w) = fst (try_download env t url p a w')"
  by (simp add: try_download_cases split: sum.splits write_outcome.splits)

lemma attempt_loop_fst_indep:
  "fst (attempt_loop env url d fnm rc as w) = fst (attempt_loop env url d fnm rc as w')"
proof (induction as arbitrary: w w')
  case Nil
  show ?case by simp
next
  case (Cons a as)
  show ?case
  proof (cases "http_get env url a")
    case (Inl e)
    then show ?thesis
      using Cons.IH by (simp add: try_download_cases)
  next
    case (Inr content)
    then show ?thesis
      by (cases "file_write env (os_path_join d fnm) content") (simp_all add: try_download_cases)
  qed
qed

lemma download_single_pokemon_fst_indep:
  "fst (download_single_pokemon env args w) = fst (download_single_pokemon env args w')"
proof -
  obtain i d burl rc where a: "args = (i, d, burl, rc)" by (cases args) auto
  show ?thesis unfolding a download_single_pokemon_loop by (rule attempt_loop_fst_indep)
qed

lemma attempt_loop_no_request_exception:
  "fst (attempt_loop env url d fnm rc as w) = Inl e \<Longrightarrow> \<not> is_RequestException e"
proof (induction as arbitrary: w)
  case Nil
  then show ?case by simp
next
  case (Cons a as)
  show ?case
  proof (cases "http_get env url a")
    case (Inl e')
    then show ?thesis
      using Cons by (auto simp: try_download_cases split: if_splits)
  next
    case (Inr content)
    then show ?thesis
      using Cons
      by (cases "file_write env (os_path_join d fnm) content")
         (auto simp: try_download_cases split: if_splits)
  qed
qed

lemma submit_downloads_futures:
  "fst (submit_downloads env args_list w) =
     map (\<lambda>args. (args, fst (download_single_pokemon env args w))) args_list"
proof (induction args_list arbitrary: w)
  case Nil
  show ?case by simp
next
  case (Cons a as)
  obtain r w1 where r: "download_single_pokemon env a w = (r, w1)" by (cases "download_single_pokemon env a w")
  obtain fs w2 where fs: "submit_downloads env as w1 = (fs, w2)" by (cases "submit_downloads env as w1")
  have "fs = map (\<lambda>args. (args, fst (download_single_pokemon env args w1))) as"
    using Cons.IH[of w1] fs by simp
  also have "\<dots> = map (\<lambda>args. (args, fst (download_single_pokemon env args w))) as"
    using download_single_pokemon_fst_indep[of env _ w1 w] by simp
  finally show ?case using r fs by simp
qed

lemma collect_downloads_counts:
  "\<forall>f \<in> set futures. \<exists>r. snd f = Inr r \<Longrightarrow>
     \<exists>s failed. collect_downloads futures s0 f0 = Inr (s, failed)
        \<and> s + int (length failed) = s0 + int (length f0) + int (length futures)
        \<and> set failed \<subseteq> set f0 \<union> (\<lambda>f. snd (projr (snd f))) ` set futures"
proof (induction futures arbitrary: s0 f0)
  case Nil
  show ?case by simp
next
  case (Cons f fs)
  obtain a success filename where f: "f = (a, Inr (success, filename))"
    using Cons.prems by (cases f) auto
  have rest: "\<forall>f \<in> set fs. \<exists>r. snd f = Inr r" using Cons.prems by simp
  show ?case
  proof (cases success)
    case True
    from Cons.IH[OF rest, of "s0 + 1" f0] obtain s failed where
      "collect_downloads fs (s0 + 1) f0 = Inr (s, failed)"
      "s + int (length failed) = s0 + 1 + int (length f0) + int (length fs)"
      "set failed \<subseteq> set f0 \<union> (\<lambda>f. snd (projr (snd f))) ` set fs" by blast
    then show ?thesis using True f by auto
  next
    case False
    from Cons.IH[OF rest, of s0 "f0 @ [filename]"] obtain s failed where
      "collect_downloads fs s0 (f0 @ [filename]) = Inr (s, failed)"
      "s + int (length failed) = s0 + int (length (f0 @ [filename])) + int (length fs)"
      "set failed \<subseteq> set (f0 @ [filename]) \<union> (\<lambda>f. snd (projr (snd f))) ` set fs" by blast
    then show ?thesis using False f by auto
  qed
qed

lemma collect_downloads_raises:
  "\<exists>f \<in> set futures. \<exists>e. snd f = Inl e \<Longrightarrow>
     \<exists>e. collect_downloads futures s0 f0 = Inl e \<and> (\<exists>f \<in> set futures. snd f = Inl e)"
proof (induction futures arbitrary: s0 f0)
  case Nil
  then show ?case by simp
next
  case (Cons f fs)
  obtain a r where f: "f = (a, r)" by (cases f)
  show ?case
  proof (cases r)
    case (Inl e)
    then show ?thesis using f by auto
  next
    case (Inr p)
    obtain success filename where p: "p = (success, filename)" by (cases p)
    have "\<exists>f \<in> set fs. \<exists>e. snd f = Inl e" using Cons.prems f Inr by auto
    from Cons.IH[OF this] show ?thesis using f Inr p by auto
  qed
qed

lemma download_single_pokemon_filename:
  "fst (download_single_pokemon env (i, d, burl, rc) w) = Inr (success, filename)
     \<Longrightarrow> filename = file_name_of i"
  unfolding download_single_pokemon_loop by (rule attempt_loop_filename)

text \<open>A task returns, with success or failure, when its requests raise nothing but
  request exceptions and its file can be written.\<close>

lemma attempt_loop_returns:
  assumes "\<forall>a e. http_get env url a = Inl e \<longrightarrow> is_RequestException e"
    and "\<forall>content. file_write env (os_path_join d fnm) content = Written"
  shows "\<exists>r. fst (attempt_loop env url d fnm rc as w) = Inr r"
proof (induction as arbitrary: w)
  case Nil
  show ?case by auto
next
  case (Cons a as)
  show ?case
  proof (cases "http_get env url a")
    case (Inl e)
    then have "is_RequestException e" using assms(1) by blast
    then show ?thesis
      using Inl Cons.IH[of "w\<lparr>trace := trace w @ [HttpGet url (Some 10), Sleep 1]\<rparr>"]
      by (auto simp: try_download_cases)
  next
    case (Inr content)
    then show ?thesis
      using assms(2) by (auto simp: try_download_cases)
  qed
qed

lemma download_single_pokemon_returns:
  assumes "\<forall>a e. http_get env (burl @ ''/'' @ file_name_of i) a = Inl e \<longrightarrow> is_RequestException e"
    and "\<forall>content. file_write env (os_path_join d (file_name_of i)) content = Written"
  shows "\<exists>r. fst (download_single_pokemon env (i, d, burl, rc) w) = Inr r"
  unfolding download_single_pokemon_loop using assms by (rule attempt_loop_returns)

text \<open>The phase, once the directory is there and the executor has its workers.\<close>

lemma download_pokemon_summary_futures:
  assumes "os_makedirs env dir_name w = Inr w0" and "1 \<le> max_workers"
  shows "download_pokemon_summary env n dir_name max_workers w =
     (case collect_downloads
             (as_completed env (fst (submit_downloads env
                (map (\<lambda>i. (i, dir_name, base_url, 2)) [1..n]) w0))) 0 [] of
        Inl e \<Rightarrow> (Inl e, snd (submit_downloads env (map (\<lambda>i. (i, dir_name, base_url, 2)) [1..n]) w0))
      | Inr (successful, failed) \<Rightarrow>
          (Inr \<lparr>downloads_total = n, successful_downloads = successful,
                failed_downloads = failed\<rparr>,
           snd (submit_downloads env (map (\<lambda>i. (i, dir_name, base_url, 2)) [1..n]) w0)))"
  using assms
  by (cases "submit_downloads env (map (\<lambda>i. (i, dir_name, base_url, 2)) [1..n]) w0")
     (simp add: download_pokemon_summary_def Let_def split: sum.splits)

lemma download_pokemon_raises:
  "fst (download_pokemon_summary env n dir_name max_workers w) = Inl e
     \<Longrightarrow> fst (download_pokemon env n dir_name max_workers w) = Inl e"
  by (cases "download_pokemon_summary env n dir_name max_workers w")
     (simp add: download_pokemon_def)

lemma download_pokemon_returns:
  "fst (download_pokemon_summary env n dir_name max_workers w) = Inr s \<Longrightarrow> total_time env \<noteq> 0
     \<Longrightarrow> fst (download_pokemon env n dir_name max_workers w) = Inr (total_time env)"
  by (cases "download_pokemon_summary env n dir_name max_workers w")
     (simp add: download_pokemon_def)

text \<open>A raising task ends the phase with what some task raised.\<close>

lemma download_pokemon_summary_task_raises:
  assumes order: "\<And>fs. mset (as_completed env fs) = mset fs"
    and mk: "os_makedirs env dir_name w = Inr w0" and mw: "1 \<le> max_workers"
    and i: "1 \<le> i" "i \<le> n"
    and raises: "fst (download_single_pokemon env (i, dir_name, base_url, 2) w0) = Inl e"
  shows "\<exists>j e'. 1 \<le> j \<and> j \<le> n
           \<and> fst (download_single_pokemon env (j, dir_name, base_url, 2) w0) = Inl e'
           \<and> fst (download_pokemon_summary env n dir_name max_workers w) = Inl e'"
proof -
  let ?args = "map (\<lambda>i. (i, dir_name, base_url, 2)) [1..n]"
  let ?futures = "fst (submit_downloads env ?args w0)"
  have fut: "?futures = map (\<lambda>args. (args, fst (download_single_pokemon env args w0))) ?args"
    by (rule submit_downloads_futures)
  have "((i, dir_name, base_url, 2), Inl e) \<in> set ?futures"
    unfolding fut using i raises by (auto simp: image_iff)
  moreover have sets: "set (as_completed env ?futures) = set ?futures"
    by (intro mset_eq_setD order)
  ultimately have "\<exists>f \<in> set (as_completed env ?futures). \<exists>e. snd f = Inl e"
    by force
  from collect_downloads_raises[OF this, of 0 "[]"] obtain e' f where
    e': "collect_downloads (as_completed env ?futures) 0 [] = Inl e'"
    and f: "f \<in> set ?futures" "snd f = Inl e'" using sets by blast
  from f obtain j where j: "1 \<le> j" "j \<le> n"
    and "fst (download_single_pokemon env (j, dir_name, base_url, 2) w0) = Inl e'"
    unfolding fut by auto
  moreover have "fst (download_pokemon_summary env n dir_name max_workers w) = Inl e'"
    unfolding download_pokemon_summary_futures[OF mk mw] using e' by simp
  ultimately show ?thesis by blast
qed

text \<open>
  Claim C1, as amended. For every \<open>n \<ge> 0\<close>, if \<^verbatim>\<open>as_completed\<close> hands over every future
  once, \<^verbatim>\<open>os.makedirs\<close> creates or finds the directory, the worker count is at least 1
  and no download task raises (a task raises what is not a request exception, such as a
  failed write of its file), then the download phase has one future per id of \<open>1..n\<close>,
  each holding a result named after its id, and it prints a summary with
  \<open>successful + |failed| = total = n\<close>; the call returns when the elapsed time is not zero.
  In the other cases no summary is produced: the call raises what \<^verbatim>\<open>os.makedirs\<close>
  raised, a \<^verbatim>\<open>ValueError\<close> for a worker count below 1, or what one of the tasks raised.
\<close>

theorem fetch_phase_accounts_every_item:
  fixes env :: fetch_env and n max_workers :: int and dir_name :: string and w w0 :: world
  defines "task \<equiv> \<lambda>i. fst (download_single_pokemon env (i, dir_name, base_url, 2) w0)"
  defines "futures \<equiv> fst (submit_downloads env (map (\<lambda>i. (i, dir_name, base_url, 2)) [1..n]) w0)"
  defines "outcome \<equiv> fst (download_pokemon_summary env n dir_name max_workers w)"
  assumes order: "\<And>fs. mset (as_completed env fs) = mset fs"
  shows "(0 \<le> n \<and> os_makedirs env dir_name w = Inr w0 \<and> 1 \<le> max_workers
            \<and> (\<forall>i. 1 \<le> i \<and> i \<le> n \<longrightarrow> (\<exists>r. task i = Inr r))
          \<longrightarrow> map (\<lambda>f. fst (fst f)) futures = [1..n]
              \<and> (\<forall>f \<in> set futures. \<exists>success. snd f = Inr (success, file_name_of (fst (fst f))))
              \<and> (\<exists>summary. outcome = Inr summary
                    \<and> downloads_total summary = n
                    \<and> successful_downloads summary + int (length (failed_downloads summary)) = n)
              \<and> (total_time env \<noteq> 0 \<longrightarrow>
                    fst (download_pokemon env n dir_name max_workers w) = Inr (total_time env)))
       \<and> (\<forall>e. os_makedirs env dir_name w = Inl e \<longrightarrow> outcome = Inl e)
       \<and> (os_makedirs env dir_name w = Inr w0 \<and> max_workers \<le> 0
          \<longrightarrow> (\<exists>m. outcome = Inl (ValueError m)))
       \<and> (os_makedirs env dir_name w = Inr w0 \<and> 1 \<le> max_workers
            \<and> (\<exists>i e. 1 \<le> i \<and> i \<le> n \<and> task i = Inl e)
          \<longrightarrow> (\<exists>i e. 1 \<le> i \<and> i \<le> n \<and> task i = Inl e \<and> outcome = Inl e
                  \<and> fst (download_pokemon env n dir_name max_workers w) = Inl e))"
proof (intro conjI impI allI)
  assume h: "0 \<le> n \<and> os_makedirs env dir_name w = Inr w0 \<and> 1 \<le> max_workers
            \<and> (\<forall>i. 1 \<le> i \<and> i \<le> n \<longrightarrow> (\<exists>r. task i = Inr r))"
  then have n: "0 \<le> n" and mk: "os_makedirs env dir_name w = Inr w0" and mw: "1 \<le> max_workers"
    and returns: "\<forall>i. 1 \<le> i \<and> i \<le> n \<longrightarrow> (\<exists>r. task i = Inr r)" by simp_all
  have fut: "futures = map (\<lambda>args. (args, fst (download_single_pokemon env args w0)))
                          (map (\<lambda>i. (i, dir_name, base_url, 2)) [1..n])"
    unfolding futures_def by (rule submit_downloads_futures)
  show ids: "map (\<lambda>f. fst (fst f)) futures = [1..n]"
    unfolding fut by (simp add: comp_def)
  show each: "\<forall>f \<in> set futures. \<exists>success. snd f = Inr (success, file_name_of (fst (fst f)))"
  proof
    fix f assume "f \<in> set futures"
    then obtain i where i: "1 \<le> i" "i \<le> n"
      and f: "f = ((i, dir_name, base_url, 2), task i)"
      unfolding fut task_def by auto
    from returns i obtain r where r: "task i = Inr r" by blast
    obtain success filename where sf: "r = (success, filename)" by (cases r)
    have "filename = file_name_of i"
      using r sf download_single_pokemon_filename[of env i dir_name base_url 2 w0 success filename]
      by (simp add: task_def)
    then show "\<exists>success. snd f = Inr (success, file_name_of (fst (fst f)))"
      using f r sf by simp
  qed
  have perm: "mset (as_completed env futures) = mset futures" by (rule order)
  have sets: "set (as_completed env futures) = set futures"
    using perm by (rule mset_eq_setD)
  have len: "length (as_completed env futures) = length futures"
    using perm by (rule mset_eq_length)
  have "\<forall>f \<in> set (as_completed env futures). \<exists>r. snd f = Inr r"
    using each sets by auto
  from collect_downloads_counts[OF this, of 0 "[]"] obtain s failed where
    c: "collect_downloads (as_completed env futures) 0 [] = Inr (s, failed)"
    and sum: "s + int (length failed) = int (length (as_completed env futures))" by auto
  have "length futures = nat n" unfolding fut by simp
  then have total: "s + int (length failed) = n" using sum len n by simp
  have summ: "outcome =
      Inr \<lparr>downloads_total = n, successful_downloads = s, failed_downloads = failed\<rparr>"
    unfolding outcome_def download_pokemon_summary_futures[OF mk mw]
    using c by (simp add: futures_def)
  then show "\<exists>summary. outcome = Inr summary
                    \<and> downloads_total summary = n
                    \<and> successful_downloads summary + int (length (failed_downloads summary)) = n"
    using total by simp
  assume "total_time env \<noteq> 0"
  with summ show "fst (download_pokemon env n dir_name max_workers w) = Inr (total_time env)"
    unfolding outcome_def by (intro download_pokemon_returns)
next
  fix e assume "os_makedirs env dir_name w = Inl e"
  then show "outcome = Inl e"
    by (simp add: outcome_def download_pokemon_summary_def)
next
  assume "os_makedirs env dir_name w = Inr w0 \<and> max_workers \<le> 0"
  then show "\<exists>m. outcome = Inl (ValueError m)"
    by (simp add: outcome_def download_pokemon_summary_def)
next
  assume h: "os_makedirs env dir_name w = Inr w0 \<and> 1 \<le> max_workers
            \<and> (\<exists>i e. 1 \<le> i \<and> i \<le> n \<and> task i = Inl e)"
  then obtain i e where i: "1 \<le> i" "i \<le> n"
    and e: "fst (download_single_pokemon env (i, dir_name, base_url, 2) w0) = Inl e"
    unfolding task_def by blast
  from h have mk: "os_makedirs env dir_name w = Inr w0" and mw: "1 \<le> max_workers" by simp_all
  from download_pokemon_summary_task_raises[OF order mk mw i e]
  obtain j e' where "1 \<le> j" "j \<le> n" "task j = Inl e'" "outcome = Inl e'"
    unfolding task_def outcome_def by blast
  moreover from this have "fst (download_pokemon env n dir_name max_workers w) = Inl e'"
    unfolding outcome_def by (intro download_pokemon_raises)
  ultimately show "\<exists>i e. 1 \<le> i \<and> i \<le> n \<and> task i = Inl e \<and> outcome = Inl e
                  \<and> fst (download_pokemon env n dir_name max_workers w) = Inl e"
    by blast
qed

lemma scenario_makedirs:
  "os_makedirs scenario_env ''pokemon_dataset'' empty_world
     = Inr (empty_world\<lparr>dirs := [''pokemon_dataset/'']\<rparr>)"
  by code_simp

lemma scenario_task_1:
  "fst (download_single_pokemon scenario_env (1, ''pokemon_dataset'', base_url, 2)
          (empty_world\<lparr>dirs := [''pokemon_dataset/'']\<rparr>))
     = Inr (True, ''001.png'')"
  by code_simp

lemma scenario_task_2:
  "fst (download_single_pokemon scenario_env (2, ''pokemon_dataset'', base_url, 2)
          (empty_world\<lparr>dirs := [''pokemon_dataset/'']\<rparr>))
     = Inr (True, ''002.png'')"
  by code_simp

lemma scenario_task_3:
  "fst (download_single_pokemon scenario_env (3, ''pokemon_dataset'', base_url, 2)
          (empty_world\<lparr>dirs := [''pokemon_dataset/'']\<rparr>))
     = Inr (False, ''003.png'')"
  by code_simp

lemma scenario_summary:
  "fst (download_pokemon_summary scenario_env 3 ''pokemon_dataset'' 32 empty_world)
     = Inr \<lparr>downloads_total = 3, successful_downloads = 2, failed_downloads = [''003.png'']\<rparr>"
  by code_simp

lemma scenario_order: "mset (as_completed scenario_env fs) = mset fs"
  by (simp add: scenario_env_def)

lemma one_unwritable_order: "mset (as_completed one_unwritable_env fs) = mset fs"
  by (simp add: one_unwritable_env_def)

lemma one_unwritable_makedirs:
  "os_makedirs one_unwritable_env ''pokemon_dataset'' empty_world
     = Inr (empty_world\<lparr>dirs := [''pokemon_dataset/'']\<rparr>)"
  by code_simp

lemma one_unwritable_task_2:
  "fst (download_single_pokemon one_unwritable_env (2, ''pokemon_dataset'', base_url, 2)
          (empty_world\<lparr>dirs := [''pokemon_dataset/'']\<rparr>))
     = Inl (OSError (''[Errno 13] Permission denied: '' @ quoted ''pokemon_dataset/002.png''))"
  by code_simp

lemma one_unwritable_summary:
  "fst (download_pokemon_summary one_unwritable_env 3 ''pokemon_dataset'' 32 empty_world)
     = Inl (OSError (''[Errno 13] Permission denied: '' @ quoted ''pokemon_dataset/002.png''))"
  by code_simp

theorem fetch_phase_accounts_every_item_witness:
  "fst (download_pokemon_summary scenario_env 3 ''pokemon_dataset'' 32 empty_world)
     = Inr \<lparr>downloads_total = 3, successful_downloads = 2, failed_downloads = [''003.png'']\<rparr>
   \<and> (2::int) + int (length [''003.png'']) = 3
   \<and> fst (download_pokemon scenario_env 3 ''pokemon_dataset'' 32 empty_world) = Inr 2
   \<and> fst (download_pokemon_summary scenario_env 3 [] 32 empty_world)
       = Inl (OSError (no_such_file ''makedirs'' []))
   \<and> (\<exists>m. fst (download_pokemon_summary scenario_env 3 ''pokemon_dataset'' 0 empty_world)
            = Inl (ValueError m))
   \<and> fst (download_pokemon one_unwritable_env 3 ''pokemon_dataset'' 32 empty_world)
       = Inl (OSError (''[Errno 13] Permission denied: '' @ quoted ''pokemon_dataset/002.png''))"
proof -
  let ?w0 = "empty_world\<lparr>dirs := [''pokemon_dataset/'']\<rparr>"
  have returns: "\<forall>i. 1 \<le> i \<and> i \<le> 3 \<longrightarrow>
      (\<exists>r. fst (download_single_pokemon scenario_env (i, ''pokemon_dataset'', base_url, 2) ?w0) = Inr r)"
  proof (intro allI impI)
    fix i :: int assume "1 \<le> i \<and> i \<le> 3"
    then have "i = 1 \<or> i = 2 \<or> i = 3" by arith
    then show "\<exists>r. fst (download_single_pokemon scenario_env (i, ''pokemon_dataset'', base_url, 2) ?w0) = Inr r"
      using scenario_task_1 scenario_task_2 scenario_task_3 by blast
  qed
  have hyp1: "(0::int) \<le> 3 \<and> os_makedirs scenario_env ''pokemon_dataset'' empty_world = Inr ?w0
      \<and> (1::int) \<le> 32
      \<and> (\<forall>i. 1 \<le> i \<and> i \<le> 3 \<longrightarrow>
          (\<exists>r. fst (download_single_pokemon scenario_env (i, ''pokemon_dataset'', base_url, 2) ?w0) = Inr r))"
    using returns scenario_makedirs by simp
  have t: "total_time scenario_env \<noteq> 0" by (simp add: scenario_env_def)
  have tt: "total_time scenario_env = 2" by (simp add: scenario_env_def)
  note inst = fetch_phase_accounts_every_item[where env = scenario_env and n = 3
      and dir_name = "''pokemon_dataset''" and max_workers = 32 and w = empty_world
      and ?w0.0 = ?w0, OF scenario_order, THEN conjunct1, rule_format, OF hyp1]
  from inst obtain summary where
    s: "fst (download_pokemon_summary scenario_env 3 ''pokemon_dataset'' 32 empty_world) = Inr summary"
    and c: "successful_downloads summary + int (length (failed_downloads summary)) = 3"
    by blast
  from inst t have r: "fst (download_pokemon scenario_env 3 ''pokemon_dataset'' 32 empty_world)
      = Inr (total_time scenario_env)" by blast
  have c2: "(2::int) + int (length [''003.png'']) = 3"
    using s c unfolding scenario_summary by simp
  have c3: "fst (download_pokemon scenario_env 3 ''pokemon_dataset'' 32 empty_world) = Inr 2"
    using r unfolding tt .
  have mk: "os_makedirs scenario_env [] empty_world = Inl (OSError (no_such_file ''makedirs'' []))"
    by (simp add: os_makedirs_def scenario_env_def)
  have c4: "fst (download_pokemon_summary scenario_env 3 [] 32 empty_world)
       = Inl (OSError (no_such_file ''makedirs'' []))"
    using fetch_phase_accounts_every_item[where env = scenario_env and n = 3
      and dir_name = "[]" and max_workers = 32 and w = empty_world,
      OF scenario_order, THEN conjunct2, THEN conjunct1, rule_format, OF mk] .
  have hyp3: "os_makedirs scenario_env ''pokemon_dataset'' empty_world = Inr ?w0 \<and> (0::int) \<le> 0"
    using scenario_makedirs by simp
  have c5: "\<exists>m. fst (download_pokemon_summary scenario_env 3 ''pokemon_dataset'' 0 empty_world)
            = Inl (ValueError m)"
    using fetch_phase_accounts_every_item[where env = scenario_env and n = 3
      and dir_name = "''pokemon_dataset''" and max_workers = 0 and w = empty_world
      and ?w0.0 = ?w0,
      OF scenario_order, THEN conjunct2, THEN conjunct2, THEN conjunct1, rule_format, OF hyp3] .
  have hyp4: "os_makedirs one_unwritable_env ''pokemon_dataset'' empty_world = Inr ?w0
      \<and> (1::int) \<le> 32
      \<and> (\<exists>i e. 1 \<le> i \<and> i \<le> 3
            \<and> fst (download_single_pokemon one_unwritable_env (i, ''pokemon_dataset'', base_url, 2) ?w0)
                = Inl e)"
  proof (intro conjI)
    show "os_makedirs one_unwritable_env ''pokemon_dataset'' empty_world = Inr ?w0"
      by (rule one_unwritable_makedirs)
    show "(1::int) \<le> 32" by simp
    have "(1::int) \<le> 2 \<and> (2::int) \<le> 3
        \<and> fst (download_single_pokemon one_unwritable_env (2, ''pokemon_dataset'', base_url, 2) ?w0)
            = Inl (OSError (''[Errno 13] Permission denied: '' @ quoted ''pokemon_dataset/002.png''))"
      using one_unwritable_task_2 by simp
    then show "\<exists>i e. 1 \<le> i \<and> i \<le> 3
            \<and> fst (download_single_pokemon one_unwritable_env (i, ''pokemon_dataset'', base_url, 2) ?w0)
                = Inl e"
      by blast
  qed
  from fetch_phase_accounts_every_item[where env = one_unwritable_env and n = 3
      and dir_name = "''pokemon_dataset''" and max_workers = 32 and w = empty_world
      and ?w0.0 = ?w0,
      OF one_unwritable_order, THEN conjunct2, THEN conjunct2, THEN conjunct2, rule_format, OF hyp4]
  obtain e where e: "fst (download_pokemon_summary one_unwritable_env 3 ''pokemon_dataset'' 32 empty_world) = Inl e"
    and p: "fst (download_pokemon one_unwritable_env 3 ''pokemon_dataset'' 32 empty_world) = Inl e"
    by blast
  from e have "e = OSError (''[Errno 13] Permission denied: '' @ quoted ''pokemon_dataset/002.png'')"
    unfolding one_unwritable_summary by simp
  with p have c6: "fst (download_pokemon one_unwritable_env 3 ''pokemon_dataset'' 32 empty_world)
       = Inl (OSError (''[Errno 13] Permission denied: '' @ quoted ''pokemon_dataset/002.png''))"
    by simp
  show ?thesis
    by (intro conjI) (rule scenario_summary c2 c3 c4 c5 c6)+
qed

text \<open>The claim as stated fails where a download cannot write its file: the task raises,
  \<^verbatim>\<open>future.result()\<close> raises again in \<^verbatim>\<open>download_pokemon\<close>, and no summary is printed.\<close>

theorem fetch_phase_write_error_counterexample:
  "fst (download_pokemon_summary readonly_env 1 ''pokemon_dataset'' 32 empty_world)
     = Inl (OSError (''[Errno 13] Permission denied: '' @ quoted ''pokemon_dataset/001.png''))
   \<and> fst (download_pokemon readonly_env 1 ''pokemon_dataset'' 32 empty_world)
     = Inl (OSError (''[Errno 13] Permission denied: '' @ quoted ''pokemon_dataset/001.png''))"
proof -
  have s: "fst (download_pokemon_summary readonly_env 1 ''pokemon_dataset'' 32 empty_world)
     = Inl (OSError (''[Errno 13] Permission denied: '' @ quoted ''pokemon_dataset/001.png''))"
    by code_simp
  then have "fst (download_pokemon readonly_env 1 ''pokemon_dataset'' 32 empty_world)
     = Inl (OSError (''[Errno 13] Permission denied: '' @ quoted ''pokemon_dataset/001.png''))"
    by (rule download_pokemon_raises)
  with s show ?thesis by (intro conjI)
qed

text \<open>The sequential \<^verbatim>\<open>download_pokemon\<close> of \<^verbatim>\<open>pokemon.py\<close> keeps no counts. It divides
  the elapsed time by \<open>n\<close>, so it raises for \<open>n = 0\<close>, after \<^verbatim>\<open>os.makedirs\<close>.\<close>

lemma pokemon_download_zero_items:
  "os_makedirs env dir_name w = Inr w0 \<Longrightarrow>
     fst (pokemon_download_pokemon env 0 dir_name w)
       = Inl (ZeroDivisionError ''float division by zero'')"
  by (simp add: pokemon_download_pokemon_def)

subsection \<open>The files that the download phase leaves\<close>

text \<open>A task writes to its own path only; it writes nothing when it returns failure, and
  its file is there when it returns success.\<close>

lemma file_paths_update [simp]:
  "file_paths (w\<lparr>files := AList.update k v (files w0)\<rparr>) = insert k (file_paths w0)"
  by (simp add: file_paths_def dom_update)

lemma file_paths_trace [simp]: "file_paths (w\<lparr>trace := t\<rparr>) = file_paths w"
  by (simp add: file_paths_def)

lemma file_paths_dirs [simp]: "file_paths (w\<lparr>dirs := t\<rparr>) = file_paths w"
  by (simp add: file_paths_def)

lemma attempt_loop_files:
  "dirs (snd (attempt_loop env url d fnm rc as w)) = dirs w
   \<and> (fst (attempt_loop env url d fnm rc as w) = Inr (False, fnm)
        \<longrightarrow> files (snd (attempt_loop env url d fnm rc as w)) = files w)
   \<and> (fst (attempt_loop env url d fnm rc as w) = Inr (True, fnm)
        \<longrightarrow> os_path_join d fnm \<in> file_paths (snd (attempt_loop env url d fnm rc as w)))
   \<and> file_paths w \<subseteq> file_paths (snd (attempt_loop env url d fnm rc as w))
   \<and> file_paths (snd (attempt_loop env url d fnm rc as w))
        \<subseteq> insert (os_path_join d fnm) (file_paths w)"
proof (induction as arbitrary: w)
  case Nil
  show ?case by auto
next
  case (Cons a as)
  show ?case
  proof (cases "http_get env url a")
    case (Inl e)
    then show ?thesis
      using Cons.IH[of "w\<lparr>trace := trace w @ [HttpGet url (Some 10), Sleep 1]\<rparr>"]
      by (auto simp: try_download_cases)
  next
    case (Inr content)
    then show ?thesis
      by (cases "file_write env (os_path_join d fnm) content")
         (auto simp: try_download_cases)
  qed
qed

lemma download_single_pokemon_files:
  "dirs (snd (download_single_pokemon env (i, d, burl, rc) w)) = dirs w
   \<and> (fst (download_single_pokemon env (i, d, burl, rc) w) = Inr (False, file_name_of i)
        \<longrightarrow> files (snd (download_single_pokemon env (i, d, burl, rc) w)) = files w)
   \<and> (fst (download_single_pokemon env (i, d, burl, rc) w) = Inr (True, file_name_of i)
        \<longrightarrow> os_path_join d (file_name_of i)
              \<in> file_paths (snd (download_single_pokemon env (i, d, burl, rc) w)))
   \<and> file_paths w \<subseteq> file_paths (snd (download_single_pokemon env (i, d, burl, rc) w))
   \<and> file_paths (snd (download_single_pokemon env (i, d, burl, rc) w))
        \<subseteq> insert (os_path_join d (file_name_of i)) (file_paths w)"
  unfolding download_single_pokemon_loop by (rule attempt_loop_files)

text \<open>All tasks of the phase run: afterwards the file of every task that returned success
  is there, whatever the other tasks did, and the only new paths are those of tasks that
  did not return failure.\<close>

lemma submit_downloads_files:
  "dirs (snd (submit_downloads env (map (\<lambda>i. (i, d, burl, rc)) ids) w)) = dirs w
   \<and> file_paths w
       \<subseteq> file_paths (snd (submit_downloads env (map (\<lambda>i. (i, d, burl, rc)) ids) w))
   \<and> (\<forall>i \<in> set ids.
         fst (download_single_pokemon env (i, d, burl, rc) w) = Inr (True, file_name_of i)
         \<longrightarrow> os_path_join d (file_name_of i)
               \<in> file_paths (snd (submit_downloads env (map (\<lambda>i. (i, d, burl, rc)) ids) w)))
   \<and> file_paths (snd (submit_downloads env (map (\<lambda>i. (i, d, burl, rc)) ids) w))
       \<subseteq> file_paths w \<union>
          {os_path_join d (file_name_of i) | i. i \<in> set ids
             \<and> fst (download_single_pokemon env (i, d, burl, rc) w) \<noteq> Inr (False, file_name_of i)}"
proof (induction ids arbitrary: w)
  case Nil
  show ?case by simp
next
  case (Cons j ids)
  let ?task = "\<lambda>i w. download_single_pokemon env (i, d, burl, rc) w"
  let ?new = "\<lambda>ids. {os_path_join d (file_name_of i) | i. i \<in> set ids
             \<and> fst (?task i w) \<noteq> Inr (False, file_name_of i)}"
  obtain r w1 where r: "?task j w = (r, w1)" by (cases "?task j w")
  obtain fs w2 where fs: "submit_downloads env (map (\<lambda>i. (i, d, burl, rc)) ids) w1 = (fs, w2)"
    by (cases "submit_downloads env (map (\<lambda>i. (i, d, burl, rc)) ids) w1")
  have w2: "snd (submit_downloads env (map (\<lambda>i. (i, d, burl, rc)) (j # ids)) w) = w2"
    using r fs by simp
  have same: "fst (?task i w1) = fst (?task i w)" for i
    by (rule download_single_pokemon_fst_indep)
  have rj: "fst (?task j w) = r" and wj: "snd (?task j w) = w1" using r by simp_all
  note one = download_single_pokemon_files[of env j d burl rc w, unfolded rj wj]
  have one_dirs: "dirs w1 = dirs w" using one by simp
  have one_failed: "r = Inr (False, file_name_of j) \<Longrightarrow> files w1 = files w" using one by simp
  have one_ok: "r = Inr (True, file_name_of j) \<Longrightarrow> os_path_join d (file_name_of j) \<in> file_paths w1"
    using one by simp
  have one_mono: "file_paths w \<subseteq> file_paths w1" using one by simp
  have one_new: "file_paths w1 \<subseteq> insert (os_path_join d (file_name_of j)) (file_paths w)"
    using one by simp
  have sub: "snd (submit_downloads env (map (\<lambda>i. (i, d, burl, rc)) ids) w1) = w2"
    using fs by simp
  note rest = Cons.IH[of w1, unfolded sub same]
  have rest_dirs: "dirs w2 = dirs w1" using rest by simp
  have rest_mono: "file_paths w1 \<subseteq> file_paths w2" using rest by simp
  have rest_ok: "\<And>i. i \<in> set ids \<Longrightarrow> fst (?task i w) = Inr (True, file_name_of i)
         \<Longrightarrow> os_path_join d (file_name_of i) \<in> file_paths w2"
    using rest by simp
  have rest_new: "file_paths w2 \<subseteq> file_paths w1 \<union> ?new ids"
    using rest by simp
  have d2: "dirs w2 = dirs w" using one_dirs rest_dirs by simp
  have mono: "file_paths w \<subseteq> file_paths w2"
    using one_mono rest_mono by (rule subset_trans)
  have succ: "\<forall>i \<in> set (j # ids). fst (?task i w) = Inr (True, file_name_of i)
         \<longrightarrow> os_path_join d (file_name_of i) \<in> file_paths w2"
  proof (intro ballI impI)
    fix i assume i: "i \<in> set (j # ids)" and ok: "fst (?task i w) = Inr (True, file_name_of i)"
    show "os_path_join d (file_name_of i) \<in> file_paths w2"
    proof (cases "i \<in> set ids")
      case True
      then show ?thesis using ok by (rule rest_ok)
    next
      case False
      then have ij: "i = j" using i by simp
      have "r = Inr (True, file_name_of j)" using ok rj unfolding ij by simp
      then have "os_path_join d (file_name_of j) \<in> file_paths w1" by (rule one_ok)
      then show ?thesis using rest_mono unfolding ij by (rule subsetD[rotated])
    qed
  qed
  have new1: "file_paths w1 \<subseteq> file_paths w \<union> ?new [j]"
  proof (cases "r = Inr (False, file_name_of j)")
    case True
    then have "files w1 = files w" by (rule one_failed)
    then show ?thesis by (simp add: file_paths_def)
  next
    case False
    then have "os_path_join d (file_name_of j) \<in> ?new [j]" using rj by simp
    then show ?thesis using one_new by blast
  qed
  have split: "?new (j # ids) = ?new [j] \<union> ?new ids" by auto
  have new: "file_paths w2 \<subseteq> file_paths w \<union> ?new (j # ids)"
    unfolding split using rest_new new1 by blast
  show ?case
    unfolding w2 using d2 mono succ new by (intro conjI)
qed

text \<open>The world after the phase is the world after all its tasks, also when a future
  raised in the loop over the results.\<close>

lemma download_pokemon_summary_world:
  assumes "os_makedirs env dir_name w = Inr w0" and "1 \<le> max_workers"
  shows "snd (download_pokemon_summary env n dir_name max_workers w) =
     snd (submit_downloads env (map (\<lambda>i. (i, dir_name, base_url, 2)) [1..n]) w0)"
  unfolding download_pokemon_summary_futures[OF assms] by (simp split: sum.splits prod.splits)


section \<open>The transform of one image\<close>

lemma and_then_Inr [simp]: "and_then (Inr x) f = f x"
  by (simp add: and_then_def)

lemma and_then_Inl [simp]: "and_then (Inl e) f = Inl e"
  by (simp add: and_then_def)

lemma and_then_assoc: "and_then (and_then m f) g = and_then m (\<lambda>x. and_then (f x) g)"
  by (cases m) simp_all

lemma and_then_case_prod:
  "and_then (case p of (a, b) \<Rightarrow> f a b) g = (case p of (a, b) \<Rightarrow> and_then (f a b) g)"
  by (cases p) simp

text \<open>What follows a block that may raise, when the block is a sequence.\<close>

lemma case_and_then:
  "(case and_then m f of Inl e \<Rightarrow> h e | Inr x \<Rightarrow> g x) =
     (case m of Inl e \<Rightarrow> h e | Inr y \<Rightarrow> (case f y of Inl e \<Rightarrow> h e | Inr x \<Rightarrow> g x))"
  by (cases m) simp_all

lemma process_single_image_cases:
  "process_single_image env (image_name, dir_origin, dir_name) w =
     (case filter_chain env w (os_path_join dir_origin image_name) of
        Inl e \<Rightarrow> ([PyBool False, PyStr image_name, PyStr (str_exn e)], w)
      | Inr img \<Rightarrow>
          (case img_save env img (os_path_join dir_name image_name) 95 True of
             Saved data \<Rightarrow>
               ([PyBool True, PyStr image_name],
                w\<lparr>files := AList.update (os_path_join dir_name image_name) data (files w)\<rparr>)
           | SaveFailed e left \<Rightarrow>
               ([PyBool False, PyStr image_name, PyStr (str_exn e)],
                case left of
                  None \<Rightarrow> w
                | Some bytes \<Rightarrow>
                    w\<lparr>files := AList.update (os_path_join dir_name image_name) bytes (files w)\<rparr>)))"
  by (simp add: process_single_image_def try_process_def save_file_def
        split: sum.splits save_outcome.splits option.splits)

lemma try_process_cases:
  "try_process env (image_name, dir_origin, dir_name) w =
     (case filter_chain env w (os_path_join dir_origin image_name) of
        Inl e \<Rightarrow> (Inl e, w)
      | Inr img \<Rightarrow>
          (case img_save env img (os_path_join dir_name image_name) 95 True of
             Saved data \<Rightarrow>
               (Inr (),
                w\<lparr>files := AList.update (os_path_join dir_name image_name) data (files w)\<rparr>)
           | SaveFailed e left \<Rightarrow>
               (Inl e,
                case left of
                  None \<Rightarrow> w
                | Some bytes \<Rightarrow>
                    w\<lparr>files := AList.update (os_path_join dir_name image_name) bytes (files w)\<rparr>)))"
  by (simp add: try_process_def save_file_def
        split: sum.splits save_outcome.splits option.splits)

lemma process_single_image_try:
  "process_single_image env (image_name, dir_origin, dir_name) w =
     (case try_process env (image_name, dir_origin, dir_name) w of
        (Inr u, w1) \<Rightarrow> ([PyBool True, PyStr image_name], w1)
      | (Inl e, w1) \<Rightarrow> ([PyBool False, PyStr image_name, PyStr (str_exn e)], w1))"
  by (simp add: process_single_image_def)

lemma filter_chain_reads_input_only:
  "map_of (files w) p = map_of (files w') p \<Longrightarrow> filter_chain env w p = filter_chain env w' p"
  by (simp add: filter_chain_def read_file_def)

lemma process_single_image_fst_indep:
  assumes "map_of (files w) (os_path_join dir_origin image_name)
         = map_of (files w') (os_path_join dir_origin image_name)"
  shows "fst (process_single_image env (image_name, dir_origin, dir_name) w) =
         fst (process_single_image env (image_name, dir_origin, dir_name) w')"
  unfolding process_single_image_cases filter_chain_reads_input_only[OF assms]
  by (simp split: sum.splits save_outcome.splits)

lemma process_single_image_other_files:
  "p \<noteq> os_path_join dir_name image_name \<Longrightarrow>
     map_of (files (snd (process_single_image env (image_name, dir_origin, dir_name) w))) p
       = map_of (files w) p"
  unfolding process_single_image_cases
  by (simp add: update_conv' split: sum.splits save_outcome.splits option.splits)

lemma process_single_image_dirs_trace:
  "dirs (snd (process_single_image env (image_name, dir_origin, dir_name) w)) = dirs w
   \<and> trace (snd (process_single_image env (image_name, dir_origin, dir_name) w)) = trace w"
  unfolding process_single_image_cases
  by (simp split: sum.splits save_outcome.splits option.splits)

lemma process_single_image_well_shaped:
  "fst (process_single_image env (image_name, dir_origin, dir_name) w) = [PyBool True, PyStr image_name]
   \<or> (\<exists>message. fst (process_single_image env (image_name, dir_origin, dir_name) w)
         = [PyBool False, PyStr image_name, PyStr message])"
  unfolding process_single_image_cases
  by (simp split: sum.splits save_outcome.splits)

lemma and_then_return [simp]: "and_then m Inr = m"
  by (cases m) simp_all

text \<open>The steps of the specification, run on the decoded input, give the image that
  the calls of the source give.\<close>

lemma spec_chain_filter_chain:
  "and_then
     (and_then (read_file env w p) (\<lambda>content.
        and_then (Image_open env content) (\<lambda>decoded.
          run_steps env LANCZOS spec_chain (decoded, img_size env decoded))))
     (\<lambda>st. Inr (fst st))
   = filter_chain env w p"
  by (simp add: filter_chain_def spec_chain_def and_then_assoc and_then_case_prod
        split: prod.splits)

lemma spec_transform_filter_chain:
  "spec_transform env LANCZOS spec_chain quality optimize dir_origin dir_name image_name w =
     (case filter_chain env w (os_path_join dir_origin image_name) of
        Inl e \<Rightarrow> (Inl e, w)
      | Inr img \<Rightarrow> save_file env img (os_path_join dir_name image_name) quality optimize w)"
proof -
  let ?steps = "and_then (read_file env w (os_path_join dir_origin image_name)) (\<lambda>content.
        and_then (Image_open env content) (\<lambda>decoded.
          run_steps env LANCZOS spec_chain (decoded, img_size env decoded)))"
  have "spec_transform env LANCZOS spec_chain quality optimize dir_origin dir_name image_name w =
     (case ?steps of
        Inl e \<Rightarrow> (Inl e, w)
      | Inr st \<Rightarrow>
          save_file env (fst st) (os_path_join dir_name image_name) quality optimize w)"
    by (simp add: spec_transform_def)
  also have "\<dots> =
     (case and_then ?steps (\<lambda>st. Inr (fst st)) of
        Inl e \<Rightarrow> (Inl e, w)
      | Inr img \<Rightarrow> save_file env img (os_path_join dir_name image_name) quality optimize w)"
    by (cases ?steps) simp_all
  finally show ?thesis
    unfolding spec_chain_filter_chain .
qed

text \<open>The tasks of a batch of different names without a separator do not read what
  another task of the batch writes, so each returns what it returns alone.\<close>

lemma submit_processes_futures:
  "distinct images \<Longrightarrow> \<forall>x \<in> set images. CHR ''/'' \<notin> set x \<Longrightarrow>
     fst (submit_processes env (map (\<lambda>image_name. (image_name, dir_origin, dir_name)) images) w) =
       map (\<lambda>image_name. ((image_name, dir_origin, dir_name),
              fst (process_single_image env (image_name, dir_origin, dir_name) w))) images"
proof (induction images arbitrary: w)
  case Nil
  show ?case by simp
next
  case (Cons im ims)
  let ?args = "\<lambda>image_name. (image_name, dir_origin, dir_name)"
  obtain r w1 where r: "process_single_image env (?args im) w = (r, w1)"
    by (cases "process_single_image env (?args im) w")
  obtain fs w2 where fs: "submit_processes env (map ?args ims) w1 = (fs, w2)"
    by (cases "submit_processes env (map ?args ims) w1")
  have d: "distinct ims" and notin: "im \<notin> set ims" using Cons.prems by simp_all
  have ns: "\<forall>x \<in> set ims. CHR ''/'' \<notin> set x" and nsim: "CHR ''/'' \<notin> set im"
    using Cons.prems by simp_all
  have w1: "w1 = snd (process_single_image env (?args im) w)" using r by simp
  have same: "fst (process_single_image env (?args x) w1) = fst (process_single_image env (?args x) w)"
    if "x \<in> set ims" for x
  proof -
    have "x \<noteq> im" using that notin by auto
    moreover have "CHR ''/'' \<notin> set x" using that ns by simp
    ultimately have "os_path_join dir_origin x \<noteq> os_path_join dir_name im"
      using nsim os_path_join_inj[of x im dir_origin dir_name] by blast
    then have "map_of (files w1) (os_path_join dir_origin x)
             = map_of (files w) (os_path_join dir_origin x)"
      unfolding w1 by (rule process_single_image_other_files)
    then show ?thesis by (rule process_single_image_fst_indep)
  qed
  have "fs = map (\<lambda>x. (?args x, fst (process_single_image env (?args x) w1))) ims"
    using Cons.IH[OF d ns, of w1] fs by simp
  also have "\<dots> = map (\<lambda>x. (?args x, fst (process_single_image env (?args x) w))) ims"
    using same by simp
  finally show ?case using r fs by simp
qed

lemma collect_processes_well_shaped:
  "\<forall>f \<in> set futures. well_shaped (snd f) \<Longrightarrow>
     collect_processes futures s0 f0 =
       Inr (s0 + int (length [f \<leftarrow> futures. hd (snd f) = PyBool True]),
            f0 @ map (\<lambda>f. (snd f ! 1, snd f ! 2)) [f \<leftarrow> futures. hd (snd f) \<noteq> PyBool True])"
proof (induction futures arbitrary: s0 f0)
  case Nil
  show ?case by simp
next
  case (Cons f fs)
  obtain a r where f: "f = (a, r)" by (cases f)
  have shaped: "well_shaped r" using Cons.prems f by simp
  have rest: "\<forall>f \<in> set fs. well_shaped (snd f)" using Cons.prems by simp
  from shaped consider (ok) name where "r = [PyBool True, PyStr name]"
    | (ko) name message where "r = [PyBool False, PyStr name, PyStr message]"
    by (cases r rule: well_shaped.cases) simp_all
  then show ?case
  proof cases
    case ok
    then show ?thesis using f Cons.IH[OF rest] by (simp add: tuple_index_def)
  next
    case ko
    then show ?thesis using f Cons.IH[OF rest] by (simp add: tuple_index_def)
  qed
qed

lemma submit_processes_well_shaped:
  "\<forall>f \<in> set (fst (submit_processes env args_list w)). well_shaped (snd f)"
proof (induction args_list arbitrary: w)
  case Nil
  show ?case by simp
next
  case (Cons a as)
  obtain im d_o d_n where a: "a = (im, d_o, d_n)" by (cases a) auto
  obtain r w1 where r: "process_single_image env a w = (r, w1)"
    by (cases "process_single_image env a w")
  obtain fs w2 where fs: "submit_processes env as w1 = (fs, w2)"
    by (cases "submit_processes env as w1")
  have "well_shaped r"
    using process_single_image_well_shaped[of env im d_o d_n w] r unfolding a by auto
  moreover have "\<forall>f \<in> set fs. well_shaped (snd f)"
    using Cons.IH[of w1] fs by simp
  ultimately show ?case
    using r fs by simp
qed

lemma png_images_distinct: "distinct names \<Longrightarrow> distinct (png_images names)"
  by (simp add: png_images_def)


lemma png_images_set:
  "set (png_images names) = {f \<in> set names. endswith f ''.png''}"
  by (auto simp: png_images_def)

lemma os_listdir_entries: "os_listdir env w d = Inr names \<Longrightarrow> names = entries w d"
  by (auto simp: os_listdir_def split: if_splits option.splits)

lemma update_twice: "AList.update k v (AList.update k v al) = AList.update k v al"
  by (rule update_triv) (simp add: update_conv')

text \<open>
  Claim C4. The transform of \<^verbatim>\<open>process_single_image\<close> is the chain of the specification
  with its fixed parameters: decode, convert to RGB, Gaussian blur of radius 10, contrast
  factor 1.5, edge enhancement (the kernel \<^verbatim>\<open>EDGE_ENHANCE_MORE\<close>), invert, Gaussian blur
  of radius 5, upscale by 2, downscale to the size found before the upscale, both with
  the LANCZOS kernel, then save with quality 95 under the input's name in the output
  directory. The loop body of \<^verbatim>\<open>pokemon.py\<close> is the same chain; the optimised version
  also passes \<^verbatim>\<open>optimize=True\<close> to \<^verbatim>\<open>save\<close>. The two sides agree on every input, also
  where a step raises, and on what they leave in the file system.
\<close>

theorem transform_chain_refines_spec:
  "try_process env (image_name, dir_origin, dir_name) w =
     spec_transform env LANCZOS spec_chain 95 True dir_origin dir_name image_name w
   \<and> pokemon_try_process env (image_name, dir_origin, dir_name) w =
     spec_transform env LANCZOS spec_chain 95 False dir_origin dir_name image_name w"
  by (simp add: try_process_def pokemon_try_process_def spec_transform_filter_chain)

subsection \<open>The examples, evaluated\<close>

lemma toy_order: "mset (as_completed toy_env fs) = mset fs"
  by (simp add: toy_env_def)

lemma toy_makedirs:
  "os_makedirs toy_env ''pokemon_processed'' dataset_world
     = Inr (dataset_world\<lparr>dirs := [''pokemon_processed/'']\<rparr>)"
  by code_simp

lemma toy_listdir:
  "os_listdir toy_env (dataset_world\<lparr>dirs := [''pokemon_processed/'']\<rparr>) ''pokemon_dataset''
     = Inr [''002.png'', ''001.png'', ''notes.txt'', ''003.png'', ''old'']"
  by code_simp

lemma toy_images:
  "png_images [''002.png'', ''001.png'', ''notes.txt'', ''003.png'', ''old'']
     = [''001.png'', ''002.png'', ''003.png'']"
  by code_simp

lemma toy_summary:
  "fst (process_pokemon_summary toy_env ''pokemon_dataset'' ''pokemon_processed'' 8 dataset_world)
    = Inr \<lparr>images_total = 3, successful_processing = 2,
           failed_processing = [(PyStr ''003.png'', PyStr ''cannot identify image file'')]\<rparr>"
  by code_simp

lemma toy_bad_task:
  "try_process toy_env (''003.png'', ''pokemon_dataset'', ''pokemon_processed'') dataset_world
     = (Inl (UnidentifiedImageError ''cannot identify image file''), dataset_world)"
  by code_simp

lemma toy_good_task_1:
  "try_process toy_env (''001.png'', ''pokemon_dataset'', ''pokemon_processed'') dataset_world
     = (Inr (), dataset_world\<lparr>files := files dataset_world @
              [(''pokemon_processed/001.png'',
                ''PNG1|RGB|blur10|contrast|edge|invert|blur5|8x6|4x3|q95|opt'')]\<rparr>)"
  by code_simp

lemma toy_good_task_1_pokemon:
  "pokemon_try_process toy_env (''001.png'', ''pokemon_dataset'', ''pokemon_processed'') dataset_world
     = (Inr (), dataset_world\<lparr>files := files dataset_world @
              [(''pokemon_processed/001.png'',
                ''PNG1|RGB|blur10|contrast|edge|invert|blur5|8x6|4x3|q95'')]\<rparr>)"
  by code_simp

theorem transform_chain_refines_spec_witness:
  "spec_transform toy_env LANCZOS spec_chain 95 True ''pokemon_dataset'' ''pokemon_processed''
         ''001.png'' dataset_world
     = (Inr (), dataset_world\<lparr>files := files dataset_world @
              [(''pokemon_processed/001.png'',
                ''PNG1|RGB|blur10|contrast|edge|invert|blur5|8x6|4x3|q95|opt'')]\<rparr>)
   \<and> spec_transform toy_env LANCZOS spec_chain 95 False ''pokemon_dataset'' ''pokemon_processed''
         ''001.png'' dataset_world
     = (Inr (), dataset_world\<lparr>files := files dataset_world @
              [(''pokemon_processed/001.png'',
                ''PNG1|RGB|blur10|contrast|edge|invert|blur5|8x6|4x3|q95'')]\<rparr>)"
proof -
  note inst = transform_chain_refines_spec[where env = toy_env and image_name = "''001.png''"
      and dir_origin = "''pokemon_dataset''" and dir_name = "''pokemon_processed''"
      and w = dataset_world]
  show ?thesis
    using inst[THEN conjunct1, symmetric] inst[THEN conjunct2, symmetric]
      toy_good_task_1 toy_good_task_1_pokemon
    by simp
qed

section \<open>The transform phase as a whole\<close>

lemma filter_length_perm:
  "mset xs = mset ys \<Longrightarrow> length (filter P xs) = length (filter P ys)"
  by (metis mset_filter size_mset)

lemma mset_singleton_list: "mset xs = {#a#} \<Longrightarrow> xs = [a]"
  by (cases xs) auto

lemma filter_perm_singleton:
  assumes "mset xs = mset ys" and "filter P ys = [a]"
  shows "filter P xs = [a]"
proof -
  have "mset (filter P xs) = mset (filter P ys)" using assms(1) by (metis mset_filter)
  then show ?thesis using assms(2) by (simp add: mset_singleton_list)
qed

lemma distinct_filter_eq_singleton:
  "distinct xs \<Longrightarrow> x \<in> set xs \<Longrightarrow> filter (\<lambda>y. y = x) xs = [x]"
  by (induction xs) (auto simp: filter_empty_conv)

lemma distinct_filter_neq_length:
  "distinct xs \<Longrightarrow> x \<in> set xs \<Longrightarrow> int (length (filter (\<lambda>y. y \<noteq> x) xs)) = int (length xs) - 1"
proof (induction xs)
  case Nil
  then show ?case by simp
next
  case (Cons a xs)
  show ?case
  proof (cases "a = x")
    case True
    then have "x \<notin> set xs" using Cons.prems by simp
    then have "filter (\<lambda>y. y \<noteq> x) xs = xs" by (auto simp: filter_id_conv)
    then show ?thesis using True by simp
  next
    case False
    then show ?thesis using Cons by simp
  qed
qed

text \<open>What the operating system raises is an \<^verbatim>\<open>OSError\<close>.\<close>

lemma os_makedirs_raises: "os_makedirs env d w = Inl e \<Longrightarrow> \<exists>m. e = OSError m"
  by (auto simp: os_makedirs_def split: if_splits option.splits)

lemma os_listdir_raises: "os_listdir env w d = Inl e \<Longrightarrow> \<exists>m. e = OSError m"
  by (auto simp: os_listdir_def split: if_splits option.splits)

text \<open>The phase, once the output directory is there, the input directory is listed and
  the executor has its workers.\<close>

lemma process_pokemon_summary_futures:
  assumes "os_makedirs env dir_name w = Inr w0"
    and "os_listdir env w0 dir_origin = Inr names" and "1 \<le> max_workers"
  shows "process_pokemon_summary env dir_origin dir_name max_workers w =
     (let process_args = map (\<lambda>image_name. (image_name, dir_origin, dir_name)) (png_images names)
      in case collect_processes (as_completed env (fst (submit_processes env process_args w0))) 0 [] of
        Inl e \<Rightarrow> (Inl e, snd (submit_processes env process_args w0))
      | Inr (successful, failed) \<Rightarrow>
          (Inr \<lparr>images_total = int (length (png_images names)),
                successful_processing = successful, failed_processing = failed\<rparr>,
           snd (submit_processes env process_args w0)))"
  using assms
  by (cases "submit_processes env
        (map (\<lambda>image_name. (image_name, dir_origin, dir_name)) (png_images names)) w0")
     (simp add: process_pokemon_summary_def Let_def split: sum.splits)

lemma listed_images:
  assumes "os_listdir env w0 dir_origin = Inr names"
  shows "distinct (png_images names)" and "\<forall>x \<in> set (png_images names). CHR ''/'' \<notin> set x"
proof -
  have names: "names = entries w0 dir_origin" using assms by (rule os_listdir_entries)
  show "distinct (png_images names)"
    unfolding names by (rule png_images_distinct[OF entries_distinct])
  show "\<forall>x \<in> set (png_images names). CHR ''/'' \<notin> set x"
    unfolding names png_images_set using entries_no_slash by blast
qed

lemma process_pokemon_summary_value:
  fixes env :: "('img, 'z) transform_env_scheme" and dir_origin dir_name :: string and w w0 :: world
  assumes order: "\<And>fs. mset (as_completed env fs) = mset fs"
    and mk: "os_makedirs env dir_name w = Inr w0"
    and ls: "os_listdir env w0 dir_origin = Inr names" and mw: "1 \<le> max_workers"
  defines "futures \<equiv> map (\<lambda>image_name. ((image_name, dir_origin, dir_name),
              fst (process_single_image env (image_name, dir_origin, dir_name) w0)))
              (png_images names)"
  shows "fst (process_pokemon_summary env dir_origin dir_name max_workers w) =
     Inr \<lparr>images_total = int (length (png_images names)),
          successful_processing = int (length [f \<leftarrow> futures. hd (snd f) = PyBool True]),
          failed_processing = map (\<lambda>f. (snd f ! 1, snd f ! 2))
             [f \<leftarrow> as_completed env futures. hd (snd f) \<noteq> PyBool True]\<rparr>"
proof -
  let ?args = "map (\<lambda>image_name. (image_name, dir_origin, dir_name)) (png_images names)"
  have fut: "fst (submit_processes env ?args w0) = futures"
    unfolding futures_def by (rule submit_processes_futures[OF listed_images[OF ls]])
  have perm: "mset (as_completed env futures) = mset futures" by (rule order)
  have "\<forall>f \<in> set futures. well_shaped (snd f)"
    unfolding fut[symmetric] by (rule submit_processes_well_shaped)
  then have "\<forall>f \<in> set (as_completed env futures). well_shaped (snd f)"
    using mset_eq_setD[OF perm] by simp
  from collect_processes_well_shaped[OF this, of 0 "[]"]
  have "collect_processes (as_completed env futures) 0 [] =
      Inr (int (length [f \<leftarrow> futures. hd (snd f) = PyBool True]),
           map (\<lambda>f. (snd f ! 1, snd f ! 2)) [f \<leftarrow> as_completed env futures. hd (snd f) \<noteq> PyBool True])"
    using filter_length_perm[OF perm] by simp
  then show ?thesis
    unfolding process_pokemon_summary_futures[OF mk ls mw] by (simp add: fut Let_def)
qed

lemma process_pokemon_raises:
  "fst (process_pokemon_summary env dir_origin dir_name max_workers w) = Inl e
     \<Longrightarrow> fst (process_pokemon env dir_origin dir_name max_workers w) = Inl e"
  by (cases "process_pokemon_summary env dir_origin dir_name max_workers w")
     (simp add: process_pokemon_def)

lemma process_pokemon_returns:
  "fst (process_pokemon_summary env dir_origin dir_name max_workers w) = Inr s
     \<Longrightarrow> total_time env \<noteq> 0
     \<Longrightarrow> fst (process_pokemon env dir_origin dir_name max_workers w) = Inr (total_time env)"
  by (cases "process_pokemon_summary env dir_origin dir_name max_workers w")
     (simp add: process_pokemon_def)


lemma end_to_end_world:
  "downloaded_dataset =
     \<lparr>files = [(''pokemon_dataset/001.png'', ''PNG''), (''pokemon_dataset/002.png'', ''PNG'')],
      dirs = [''pokemon_dataset/''],
      trace = trace downloaded_dataset\<rparr>"
proof -
  have "files downloaded_dataset
      = [(''pokemon_dataset/001.png'', ''PNG''), (''pokemon_dataset/002.png'', ''PNG'')]"
    by code_simp
  moreover have "dirs downloaded_dataset = [''pokemon_dataset/'']"
    by code_simp
  ultimately show ?thesis by (simp add: world.equality)
qed



lemma end_to_end_entries:
  "entries (downloaded_dataset\<lparr>dirs := [''pokemon_dataset/'', ''pokemon_processed/'']\<rparr>)
       ''pokemon_dataset''
     = [''001.png'', ''002.png'']"
  by code_simp






text \<open>
  Claim C10. A result of \<^verbatim>\<open>process_single_image\<close> is the pair \<open>(True, name)\<close> or the
  triple \<open>(False, name, message)\<close>; on results of these two shapes the loop of
  \<^verbatim>\<open>process_pokemon\<close> never indexes out of range: the phase never raises
  \<^verbatim>\<open>IndexError\<close>, and it produces its summary once the output directory is there, the
  input directory is listed and the executor has its workers. A pair that started with
  \<open>False\<close> would raise \<^verbatim>\<open>IndexError\<close>.
\<close>

theorem result_shapes_and_indexing:
  fixes env :: "('img, 'z) transform_env_scheme"
  shows "(fst (process_single_image env (image_name, dir_origin, dir_name) w)
            = [PyBool True, PyStr image_name]
          \<or> (\<exists>message. fst (process_single_image env (image_name, dir_origin, dir_name) w)
                = [PyBool False, PyStr image_name, PyStr message]))
       \<and> ((\<forall>f \<in> set futures. well_shaped (snd f))
            \<longrightarrow> (\<exists>successful failed. collect_processes futures s0 f0 = Inr (successful, failed)))
       \<and> ((\<forall>fs. mset (as_completed env fs) = mset fs)
            \<longrightarrow> (\<forall>m. fst (process_pokemon_summary env dir_origin dir_name max_workers w)
                       \<noteq> Inl (IndexError m))
                \<and> ((\<exists>w0 names. os_makedirs env dir_name w = Inr w0
                        \<and> os_listdir env w0 dir_origin = Inr names) \<and> 1 \<le> max_workers
                    \<longrightarrow> (\<exists>summary. fst (process_pokemon_summary env dir_origin dir_name
                                           max_workers w) = Inr summary)))
       \<and> collect_processes [(args, [PyBool False, PyStr image_name])] s0 f0
            = Inl (IndexError ''tuple index out of range'')"
proof (intro conjI impI)
  show "fst (process_single_image env (image_name, dir_origin, dir_name) w)
            = [PyBool True, PyStr image_name]
          \<or> (\<exists>message. fst (process_single_image env (image_name, dir_origin, dir_name) w)
                = [PyBool False, PyStr image_name, PyStr message])"
    by (rule process_single_image_well_shaped)
next
  assume "\<forall>f \<in> set futures. well_shaped (snd f)"
  then show "\<exists>successful failed. collect_processes futures s0 f0 = Inr (successful, failed)"
    using collect_processes_well_shaped[of futures s0 f0] by blast
next
  assume "\<forall>fs. mset (as_completed env fs) = mset fs"
  then have order: "\<And>fs. mset (as_completed env fs) = mset fs" by simp
  let ?outcome = "fst (process_pokemon_summary env dir_origin dir_name max_workers w)"
  show "\<forall>m. ?outcome \<noteq> Inl (IndexError m)"
  proof (cases "os_makedirs env dir_name w")
    case (Inl e)
    then obtain m' where "e = OSError m'" using os_makedirs_raises by blast
    then show ?thesis using Inl by (simp add: process_pokemon_summary_def)
  next
    case mk: (Inr w0)
    show ?thesis
    proof (cases "os_listdir env w0 dir_origin")
      case (Inl e)
      then obtain m' where "e = OSError m'" using os_listdir_raises by blast
      then show ?thesis using mk Inl by (simp add: process_pokemon_summary_def)
    next
      case ls: (Inr names)
      show ?thesis
      proof (cases "max_workers \<le> 0")
        case True
        then show ?thesis using mk ls by (simp add: process_pokemon_summary_def)
      next
        case False
        then have "1 \<le> max_workers" by simp
        from process_pokemon_summary_value[OF order mk ls this]
        show ?thesis by simp
      qed
    qed
  qed
next
  assume "\<forall>fs. mset (as_completed env fs) = mset fs"
  then have order: "\<And>fs. mset (as_completed env fs) = mset fs" by simp
  assume "(\<exists>w0 names. os_makedirs env dir_name w = Inr w0
                        \<and> os_listdir env w0 dir_origin = Inr names) \<and> 1 \<le> max_workers"
  then obtain w0 names where mk: "os_makedirs env dir_name w = Inr w0"
    and ls: "os_listdir env w0 dir_origin = Inr names" and mw: "1 \<le> max_workers" by blast
  from process_pokemon_summary_value[OF order mk ls mw]
  show "\<exists>summary. fst (process_pokemon_summary env dir_origin dir_name max_workers w) = Inr summary"
    by blast
next
  show "collect_processes [(args, [PyBool False, PyStr image_name])] s0 f0
            = Inl (IndexError ''tuple index out of range'')"
    by (simp add: tuple_index_def)
qed

theorem result_shapes_and_indexing_witness:
  "fst (process_single_image toy_env (''003.png'', ''pokemon_dataset'', ''pokemon_processed'')
          dataset_world)
     = [PyBool False, PyStr ''003.png'', PyStr ''cannot identify image file'']
   \<and> collect_processes
        [((''001.png'', ''pokemon_dataset'', ''pokemon_processed''), [PyBool True, PyStr ''001.png'']),
         ((''003.png'', ''pokemon_dataset'', ''pokemon_processed''),
            [PyBool False, PyStr ''003.png'', PyStr ''cannot identify image file''])] 0 []
       = Inr (1, [(PyStr ''003.png'', PyStr ''cannot identify image file'')])
   \<and> fst (process_pokemon_summary toy_env ''pokemon_dataset'' ''pokemon_processed'' 8 dataset_world)
       = Inr \<lparr>images_total = 3, successful_processing = 2,
              failed_processing = [(PyStr ''003.png'', PyStr ''cannot identify image file'')]\<rparr>"
proof -
  let ?futures = "[((''001.png'', ''pokemon_dataset'', ''pokemon_processed''), [PyBool True, PyStr ''001.png'']),
         ((''003.png'', ''pokemon_dataset'', ''pokemon_processed''),
            [PyBool False, PyStr ''003.png'', PyStr ''cannot identify image file''])]"
  note inst = result_shapes_and_indexing[where env = toy_env and image_name = "''003.png''"
      and dir_origin = "''pokemon_dataset''" and dir_name = "''pokemon_processed''"
      and w = dataset_world and futures = ?futures and ?s0.0 = 0 and ?f0.0 = "[]"
      and max_workers = 8]
  have shaped: "\<forall>f \<in> set ?futures. well_shaped (snd f)" by simp
  from inst shaped obtain successful failed where
    sf: "collect_processes ?futures 0 [] = Inr (successful, failed)" by blast
  have ev: "collect_processes ?futures 0 []
       = Inr (1, [(PyStr ''003.png'', PyStr ''cannot identify image file'')])"
    by code_simp
  from sf have "(successful, failed) = (1, [(PyStr ''003.png'', PyStr ''cannot identify image file'')])"
    unfolding ev by simp
  with sf have c2: "collect_processes ?futures 0 []
       = Inr (1, [(PyStr ''003.png'', PyStr ''cannot identify image file'')])"
    by simp
  have ready: "(\<exists>w0 names. os_makedirs toy_env ''pokemon_processed'' dataset_world = Inr w0
        \<and> os_listdir toy_env w0 ''pokemon_dataset'' = Inr names) \<and> (1::int) \<le> 8"
    using toy_makedirs toy_listdir by (intro conjI exI) simp_all
  from inst[THEN conjunct2, THEN conjunct2, THEN conjunct1, rule_format, OF toy_order]
  have "(\<exists>w0 names. os_makedirs toy_env ''pokemon_processed'' dataset_world = Inr w0
        \<and> os_listdir toy_env w0 ''pokemon_dataset'' = Inr names) \<and> (1::int) \<le> 8
      \<longrightarrow> (\<exists>summary. fst (process_pokemon_summary toy_env ''pokemon_dataset'' ''pokemon_processed''
                              8 dataset_world) = Inr summary)"
    by (rule conjunct2)
  with ready obtain summary where
    s: "fst (process_pokemon_summary toy_env ''pokemon_dataset'' ''pokemon_processed'' 8 dataset_world)
       = Inr summary" by blast
  from s have "summary = \<lparr>images_total = 3, successful_processing = 2,
              failed_processing = [(PyStr ''003.png'', PyStr ''cannot identify image file'')]\<rparr>"
    unfolding toy_summary by simp
  with s have c3: "fst (process_pokemon_summary toy_env ''pokemon_dataset'' ''pokemon_processed'' 8
       dataset_world)
       = Inr \<lparr>images_total = 3, successful_processing = 2,
              failed_processing = [(PyStr ''003.png'', PyStr ''cannot identify image file'')]\<rparr>"
    by simp
  have e1: "fst (process_single_image toy_env (''003.png'', ''pokemon_dataset'', ''pokemon_processed'')
          dataset_world)
     \<noteq> [PyBool True, PyStr ''003.png'']"
    by code_simp
  from inst[THEN conjunct1] e1 obtain message where
    m: "fst (process_single_image toy_env (''003.png'', ''pokemon_dataset'', ''pokemon_processed'')
          dataset_world) = [PyBool False, PyStr ''003.png'', PyStr message]" by blast
  have "fst (process_single_image toy_env (''003.png'', ''pokemon_dataset'', ''pokemon_processed'')
          dataset_world)
     = [PyBool False, PyStr ''003.png'', PyStr ''cannot identify image file'']"
    by code_simp
  with m have "message = ''cannot identify image file''" by simp
  with m have c1: "fst (process_single_image toy_env (''003.png'', ''pokemon_dataset'', ''pokemon_processed'')
          dataset_world)
     = [PyBool False, PyStr ''003.png'', PyStr ''cannot identify image file'']"
    by simp
  show ?thesis
    by (intro conjI) (rule c1 c2 c3)+
qed

text \<open>
  Claim C5, as amended. A transform task whose chain raises returns the failure triple
  with the text of the exception, and changes no path but that of its own output. When
  it fails before the save (a missing input, a decode error, a filter that raises) it
  leaves the file system as it was. When the save fails, the output path is as it was
  before or holds what the failed call left there: an output of an earlier run emptied,
  or a partial file. Each task of a batch of different names returns what it returns
  alone on the initial file system; so when exactly one of the listed inputs fails and
  the others succeed, the summary counts that one failure, with its message, and
  successes for all the rest.
\<close>

theorem transform_failure_isolated:
  fixes env :: "('img, 'z) transform_env_scheme" and dir_origin dir_name :: string
    and w w0 :: world
  defines "task \<equiv> \<lambda>image_name. (image_name, dir_origin, dir_name)"
  defines "input_path \<equiv> \<lambda>image_name. os_path_join dir_origin image_name"
  defines "output_path \<equiv> \<lambda>image_name. os_path_join dir_name image_name"
  shows "(\<forall>e w1. try_process env (task image_name) w = (Inl e, w1) \<longrightarrow>
            process_single_image env (task image_name) w
              = ([PyBool False, PyStr image_name, PyStr (str_exn e)], w1))
       \<and> (\<forall>e. filter_chain env w (input_path image_name) = Inl e
            \<longrightarrow> try_process env (task image_name) w = (Inl e, w))
       \<and> (\<forall>content e. read_file env w (input_path image_name) = Inr content
              \<and> Image_open env content = Inl e
            \<longrightarrow> try_process env (task image_name) w = (Inl e, w))
       \<and> (\<forall>img e left. filter_chain env w (input_path image_name) = Inr img
              \<and> img_save env img (output_path image_name) 95 True = SaveFailed e left
            \<longrightarrow> fst (try_process env (task image_name) w) = Inl e
                \<and> map_of (files (snd (try_process env (task image_name) w)))
                      (output_path image_name)
                    = (case left of
                         None \<Rightarrow> map_of (files w) (output_path image_name)
                       | Some bytes \<Rightarrow> Some bytes))
       \<and> (\<forall>p. p \<noteq> output_path image_name
            \<longrightarrow> map_of (files (snd (process_single_image env (task image_name) w))) p
                  = map_of (files w) p)
       \<and> (distinct images \<and> (\<forall>x \<in> set images. CHR ''/'' \<notin> set x)
            \<longrightarrow> fst (submit_processes env (map task images) w)
                  = map (\<lambda>image_name.
                           (task image_name, fst (process_single_image env (task image_name) w)))
                      images)
       \<and> ((\<forall>fs. mset (as_completed env fs) = mset fs)
            \<and> os_makedirs env dir_name w = Inr w0
            \<and> os_listdir env w0 dir_origin = Inr names
            \<and> 1 \<le> max_workers
            \<and> bad \<in> set (png_images names)
            \<and> fst (try_process env (task bad) w0) = Inl err
            \<and> (\<forall>image_name \<in> set (png_images names). image_name \<noteq> bad \<longrightarrow>
                  fst (try_process env (task image_name) w0) = Inr ())
          \<longrightarrow> fst (process_pokemon_summary env dir_origin dir_name max_workers w) =
                Inr \<lparr>images_total = int (length (png_images names)),
                     successful_processing = int (length (png_images names)) - 1,
                     failed_processing = [(PyStr bad, PyStr (str_exn err))]\<rparr>)"
proof (intro conjI allI impI)
  fix e w1 assume "try_process env (task image_name) w = (Inl e, w1)"
  then show "process_single_image env (task image_name) w
              = ([PyBool False, PyStr image_name, PyStr (str_exn e)], w1)"
    unfolding task_def process_single_image_try by simp
next
  fix e assume "filter_chain env w (input_path image_name) = Inl e"
  then show "try_process env (task image_name) w = (Inl e, w)"
    unfolding task_def input_path_def try_process_cases by simp
next
  fix content e
  assume "read_file env w (input_path image_name) = Inr content \<and> Image_open env content = Inl e"
  then have "filter_chain env w (input_path image_name) = Inl e"
    by (simp add: filter_chain_def)
  then show "try_process env (task image_name) w = (Inl e, w)"
    unfolding task_def input_path_def try_process_cases by simp
next
  fix img e left
  assume h: "filter_chain env w (input_path image_name) = Inr img
              \<and> img_save env img (output_path image_name) 95 True = SaveFailed e left"
  then show "fst (try_process env (task image_name) w) = Inl e"
    unfolding task_def input_path_def output_path_def try_process_cases by simp
  from h show "map_of (files (snd (try_process env (task image_name) w)))
                      (output_path image_name)
                    = (case left of
                         None \<Rightarrow> map_of (files w) (output_path image_name)
                       | Some bytes \<Rightarrow> Some bytes)"
    unfolding task_def input_path_def output_path_def try_process_cases
    by (simp add: update_conv' split: option.splits)
next
  fix p assume "p \<noteq> output_path image_name"
  then show "map_of (files (snd (process_single_image env (task image_name) w))) p
                  = map_of (files w) p"
    unfolding task_def output_path_def by (rule process_single_image_other_files)
next
  assume "distinct images \<and> (\<forall>x \<in> set images. CHR ''/'' \<notin> set x)"
  then show "fst (submit_processes env (map task images) w)
                  = map (\<lambda>image_name.
                           (task image_name, fst (process_single_image env (task image_name) w)))
                      images"
    unfolding task_def by (intro submit_processes_futures) simp_all
next
  assume h: "(\<forall>fs. mset (as_completed env fs) = mset fs)
            \<and> os_makedirs env dir_name w = Inr w0
            \<and> os_listdir env w0 dir_origin = Inr names
            \<and> 1 \<le> max_workers
            \<and> bad \<in> set (png_images names)
            \<and> fst (try_process env (task bad) w0) = Inl err
            \<and> (\<forall>image_name \<in> set (png_images names). image_name \<noteq> bad \<longrightarrow>
                  fst (try_process env (task image_name) w0) = Inr ())"
  let ?images = "png_images names"
  let ?result = "\<lambda>image_name. fst (process_single_image env (task image_name) w0)"
  let ?future = "\<lambda>image_name. (task image_name, ?result image_name)"
  let ?futures = "map ?future ?images"
  have order: "\<And>fs. mset (as_completed env fs) = mset fs" using h by simp
  have mk: "os_makedirs env dir_name w = Inr w0"
    and ls: "os_listdir env w0 dir_origin = Inr names" and mw: "1 \<le> max_workers"
    using h by simp_all
  have d: "distinct ?images" by (rule listed_images[OF ls])
  have bad: "bad \<in> set ?images" using h by simp
  have berr: "fst (try_process env (task bad) w0) = Inl err" using h by simp
  have rbad: "?result bad = [PyBool False, PyStr bad, PyStr (str_exn err)]"
    using berr unfolding task_def process_single_image_try
    by (cases "try_process env (bad, dir_origin, dir_name) w0") simp
  have rok: "?result x = [PyBool True, PyStr x]" if "x \<in> set ?images" "x \<noteq> bad" for x
  proof -
    from h that have "fst (try_process env (task x) w0) = Inr ()" by blast
    then show ?thesis unfolding task_def process_single_image_try
      by (cases "try_process env (x, dir_origin, dir_name) w0") simp
  qed
  have ok_iff: "(hd (snd (?future x)) = PyBool True) = (x \<noteq> bad)" if "x \<in> set ?images" for x
    using rok[OF that] rbad by (cases "x = bad") simp_all
  have succ: "[f \<leftarrow> ?futures. hd (snd f) = PyBool True] = map ?future [x \<leftarrow> ?images. x \<noteq> bad]"
    unfolding filter_map comp_def using ok_iff by (simp cong: filter_cong)
  have fail: "[f \<leftarrow> ?futures. hd (snd f) \<noteq> PyBool True] = map ?future [x \<leftarrow> ?images. x = bad]"
    unfolding filter_map comp_def using ok_iff by (simp cong: filter_cong)
  have fail1: "[f \<leftarrow> ?futures. hd (snd f) \<noteq> PyBool True] = [?future bad]"
    unfolding fail distinct_filter_eq_singleton[OF d bad] by simp
  have perm: "mset (as_completed env ?futures) = mset ?futures" by (rule order)
  have failc: "[f \<leftarrow> as_completed env ?futures. hd (snd f) \<noteq> PyBool True] = [?future bad]"
    using filter_perm_singleton[OF perm fail1] .
  have succn: "int (length [f \<leftarrow> ?futures. hd (snd f) = PyBool True]) = int (length ?images) - 1"
    unfolding succ using distinct_filter_neq_length[OF d bad] by simp
  have "fst (process_pokemon_summary env dir_origin dir_name max_workers w) =
     Inr \<lparr>images_total = int (length ?images),
          successful_processing = int (length [f \<leftarrow> ?futures. hd (snd f) = PyBool True]),
          failed_processing = map (\<lambda>f. (snd f ! 1, snd f ! 2))
             [f \<leftarrow> as_completed env ?futures. hd (snd f) \<noteq> PyBool True]\<rparr>"
    unfolding task_def by (rule process_pokemon_summary_value[OF order mk ls mw])
  then show "fst (process_pokemon_summary env dir_origin dir_name max_workers w) =
                Inr \<lparr>images_total = int (length ?images),
                     successful_processing = int (length ?images) - 1,
                     failed_processing = [(PyStr bad, PyStr (str_exn err))]\<rparr>"
    unfolding failc succn using rbad by simp
qed

lemma full_disk_chain:
  "filter_chain full_disk_toy_env rerun_world (os_path_join ''pokemon_dataset'' ''001.png'')
     = Inr (''PNG1|RGB|blur10|contrast|edge|invert|blur5|8x6|4x3'', 4, 3)"
  by code_simp

lemma full_disk_save:
  "img_save full_disk_toy_env (''PNG1|RGB|blur10|contrast|edge|invert|blur5|8x6|4x3'', 4, 3)
       (os_path_join ''pokemon_processed'' ''001.png'') 95 True
     = SaveFailed (OSError ''[Errno 28] No space left on device'') (Some [])"
  by (simp add: full_disk_toy_env_def)

lemma toy_good_tasks:
  "fst (try_process toy_env (''001.png'', ''pokemon_dataset'', ''pokemon_processed'')
          (dataset_world\<lparr>dirs := [''pokemon_processed/'']\<rparr>)) = Inr ()"
  "fst (try_process toy_env (''002.png'', ''pokemon_dataset'', ''pokemon_processed'')
          (dataset_world\<lparr>dirs := [''pokemon_processed/'']\<rparr>)) = Inr ()"
  "fst (try_process toy_env (''003.png'', ''pokemon_dataset'', ''pokemon_processed'')
          (dataset_world\<lparr>dirs := [''pokemon_processed/'']\<rparr>))
     = Inl (UnidentifiedImageError ''cannot identify image file'')"
  by code_simp+

theorem transform_failure_isolated_witness:
  "process_single_image toy_env (''003.png'', ''pokemon_dataset'', ''pokemon_processed'') dataset_world
     = ([PyBool False, PyStr ''003.png'', PyStr ''cannot identify image file''], dataset_world)
   \<and> fst (process_pokemon_summary toy_env ''pokemon_dataset'' ''pokemon_processed'' 8 dataset_world)
       = Inr \<lparr>images_total = 3, successful_processing = 2,
              failed_processing = [(PyStr ''003.png'', PyStr ''cannot identify image file'')]\<rparr>
   \<and> fst (try_process full_disk_toy_env (''001.png'', ''pokemon_dataset'', ''pokemon_processed'')
            rerun_world)
       = Inl (OSError ''[Errno 28] No space left on device'')
   \<and> map_of (files (snd (try_process full_disk_toy_env
                (''001.png'', ''pokemon_dataset'', ''pokemon_processed'') rerun_world)))
         (os_path_join ''pokemon_processed'' ''001.png'') = Some []
   \<and> map_of (files (snd (process_single_image full_disk_toy_env
                (''001.png'', ''pokemon_dataset'', ''pokemon_processed'') rerun_world)))
         ''pokemon_dataset/001.png'' = Some ''PNG1''"
proof -
  note inst = transform_failure_isolated[where env = toy_env and dir_origin = "''pokemon_dataset''"
      and dir_name = "''pokemon_processed''" and w = dataset_world and image_name = "''003.png''"
      and bad = "''003.png''" and err = "UnidentifiedImageError ''cannot identify image file''"
      and ?w0.0 = "dataset_world\<lparr>dirs := [''pokemon_processed/'']\<rparr>"
      and names = "[''002.png'', ''001.png'', ''notes.txt'', ''003.png'', ''old'']"
      and max_workers = 8]
  note full = transform_failure_isolated[where env = full_disk_toy_env
      and dir_origin = "''pokemon_dataset''"
      and dir_name = "''pokemon_processed''" and w = rerun_world and image_name = "''001.png''"]
  have single: "process_single_image toy_env (''003.png'', ''pokemon_dataset'', ''pokemon_processed'')
        dataset_world
     = ([PyBool False, PyStr ''003.png'',
         PyStr (str_exn (UnidentifiedImageError ''cannot identify image file''))], dataset_world)"
    using inst[THEN conjunct1, rule_format, OF toy_bad_task] .
  have c1: "process_single_image toy_env (''003.png'', ''pokemon_dataset'', ''pokemon_processed'')
        dataset_world
     = ([PyBool False, PyStr ''003.png'', PyStr ''cannot identify image file''], dataset_world)"
    using single by simp
  have hyp: "(\<forall>fs. mset (as_completed toy_env fs) = mset fs)
      \<and> os_makedirs toy_env ''pokemon_processed'' dataset_world
          = Inr (dataset_world\<lparr>dirs := [''pokemon_processed/'']\<rparr>)
      \<and> os_listdir toy_env (dataset_world\<lparr>dirs := [''pokemon_processed/'']\<rparr>) ''pokemon_dataset''
          = Inr [''002.png'', ''001.png'', ''notes.txt'', ''003.png'', ''old'']
      \<and> (1::int) \<le> 8
      \<and> ''003.png'' \<in> set (png_images [''002.png'', ''001.png'', ''notes.txt'', ''003.png'', ''old''])
      \<and> fst (try_process toy_env (''003.png'', ''pokemon_dataset'', ''pokemon_processed'')
                (dataset_world\<lparr>dirs := [''pokemon_processed/'']\<rparr>))
          = Inl (UnidentifiedImageError ''cannot identify image file'')
      \<and> (\<forall>image_name \<in> set (png_images [''002.png'', ''001.png'', ''notes.txt'', ''003.png'', ''old'']).
            image_name \<noteq> ''003.png'' \<longrightarrow>
            fst (try_process toy_env (image_name, ''pokemon_dataset'', ''pokemon_processed'')
                   (dataset_world\<lparr>dirs := [''pokemon_processed/'']\<rparr>)) = Inr ())"
    unfolding toy_images using toy_order toy_makedirs toy_listdir toy_good_tasks by simp
  have batch: "fst (process_pokemon_summary toy_env ''pokemon_dataset'' ''pokemon_processed'' 8
        dataset_world)
       = Inr \<lparr>images_total = int (length (png_images [''002.png'', ''001.png'', ''notes.txt'', ''003.png'', ''old''])),
              successful_processing
                = int (length (png_images [''002.png'', ''001.png'', ''notes.txt'', ''003.png'', ''old''])) - 1,
              failed_processing = [(PyStr ''003.png'',
                 PyStr (str_exn (UnidentifiedImageError ''cannot identify image file'')))]\<rparr>"
    using inst[THEN conjunct2, THEN conjunct2, THEN conjunct2, THEN conjunct2, THEN conjunct2,
      THEN conjunct2, rule_format, OF hyp] .
  have c2: "fst (process_pokemon_summary toy_env ''pokemon_dataset'' ''pokemon_processed'' 8 dataset_world)
       = Inr \<lparr>images_total = 3, successful_processing = 2,
              failed_processing = [(PyStr ''003.png'', PyStr ''cannot identify image file'')]\<rparr>"
    using batch unfolding toy_images by simp
  have hyp3: "filter_chain full_disk_toy_env rerun_world (os_path_join ''pokemon_dataset'' ''001.png'')
        = Inr (''PNG1|RGB|blur10|contrast|edge|invert|blur5|8x6|4x3'', 4, 3)
      \<and> img_save full_disk_toy_env (''PNG1|RGB|blur10|contrast|edge|invert|blur5|8x6|4x3'', 4, 3)
          (os_path_join ''pokemon_processed'' ''001.png'') 95 True
        = SaveFailed (OSError ''[Errno 28] No space left on device'') (Some [])"
    using full_disk_chain full_disk_save by simp
  note failed_save = full[THEN conjunct2, THEN conjunct2, THEN conjunct2, THEN conjunct1,
      rule_format, OF hyp3]
  have c3: "fst (try_process full_disk_toy_env (''001.png'', ''pokemon_dataset'', ''pokemon_processed'')
            rerun_world)
       = Inl (OSError ''[Errno 28] No space left on device'')"
    using failed_save by (rule conjunct1)
  have c4: "map_of (files (snd (try_process full_disk_toy_env
                (''001.png'', ''pokemon_dataset'', ''pokemon_processed'') rerun_world)))
         (os_path_join ''pokemon_processed'' ''001.png'') = Some []"
    using failed_save by simp
  have ne: "''pokemon_dataset/001.png'' \<noteq> os_path_join ''pokemon_processed'' ''001.png''"
    by code_simp
  have "map_of (files (snd (process_single_image full_disk_toy_env
                (''001.png'', ''pokemon_dataset'', ''pokemon_processed'') rerun_world)))
         ''pokemon_dataset/001.png'' = map_of (files rerun_world) ''pokemon_dataset/001.png''"
    using full[THEN conjunct2, THEN conjunct2, THEN conjunct2, THEN conjunct2, THEN conjunct1,
      rule_format, OF ne] .
  then have c5: "map_of (files (snd (process_single_image full_disk_toy_env
                (''001.png'', ''pokemon_dataset'', ''pokemon_processed'') rerun_world)))
         ''pokemon_dataset/001.png'' = Some ''PNG1''"
    by (simp add: rerun_world_def)
  show ?thesis
    by (intro conjI) (rule c1 c2 c3 c4 c5)+
qed

text \<open>The claim as stated fails where the save fails over the output of an earlier run:
  the task is recorded as failed, and its output file has been written to: it is
  empty.\<close>

theorem failed_save_empties_output_counterexample:
  "map_of (files rerun_world) ''pokemon_processed/001.png'' = Some ''earlier output''
   \<and> process_single_image full_disk_toy_env (''001.png'', ''pokemon_dataset'', ''pokemon_processed'')
        rerun_world
     = ([PyBool False, PyStr ''001.png'', PyStr ''[Errno 28] No space left on device''],
        \<lparr>files = [(''pokemon_dataset/001.png'', ''PNG1''), (''pokemon_processed/001.png'', [])],
         dirs = [], trace = []\<rparr>)"
  by code_simp

section \<open>Errors at the task boundary\<close>

text \<open>
  Claim C3, as amended. Every exception raised inside a transform task becomes that task's
  failure result, with what a failed save left on disk, so that the transform phase, once
  its directories are set up and its executor has its workers, produces its summary for
  every order in which \<^verbatim>\<open>as_completed\<close> hands over the futures. In a
  download task every request exception is caught, and when all of at least one attempts
  raise request exceptions the task returns its failure result. An exception of another
  class, such as the \<^verbatim>\<open>OSError\<close> of a failed write of the downloaded file, is not
  caught by \<^verbatim>\<open>except requests.exceptions.RequestException\<close>: it leaves the task at the
  attempt that raised it, and it ends \<^verbatim>\<open>download_pokemon\<close>, without a summary, when
  \<^verbatim>\<open>future.result()\<close> raises it again. The sibling tasks still run: the future of every
  task holds what the task returns or raises on its own, and the file of every task that
  succeeded is there after the phase, also when the phase has raised.
\<close>

theorem task_errors_at_the_boundary:
  fixes fenv :: fetch_env and tenv :: "('img, 'z) transform_env_scheme"
    and w w0 wt wt0 :: world and i n retry_count workers max_workers :: int
    and burl d :: string
  defines "url \<equiv> burl @ ''/'' @ file_name_of i"
  defines "img_path \<equiv> os_path_join d (file_name_of i)"
  defines "task \<equiv> \<lambda>j. fst (download_single_pokemon fenv (j, d, base_url, 2) w0)"
  shows "(\<forall>e w1. try_process tenv (image_name, dir_origin, dir_name) wt = (Inl e, w1) \<longrightarrow>
            process_single_image tenv (image_name, dir_origin, dir_name) wt
              = ([PyBool False, PyStr image_name, PyStr (str_exn e)], w1))
       \<and> ((\<forall>fs. mset (as_completed tenv fs) = mset fs)
            \<and> os_makedirs tenv dir_name wt = Inr wt0
            \<and> os_listdir tenv wt0 dir_origin = Inr names
            \<and> 1 \<le> max_workers
          \<longrightarrow> (\<exists>summary. fst (process_pokemon_summary tenv dir_origin dir_name max_workers wt)
                            = Inr summary)
              \<and> (total_time tenv \<noteq> 0 \<longrightarrow>
                   fst (process_pokemon tenv dir_origin dir_name max_workers wt)
                     = Inr (total_time tenv)))
       \<and> (\<forall>err. 1 \<le> retry_count
              \<and> (\<forall>j. 0 \<le> j \<and> j < retry_count \<longrightarrow> http_get fenv url j = Inl (RequestException (err j)))
            \<longrightarrow> fst (download_single_pokemon fenv (i, d, burl, retry_count) w)
                  = Inr (False, file_name_of i))
       \<and> (\<forall>e. fst (download_single_pokemon fenv (i, d, burl, retry_count) w) = Inl e
              \<longrightarrow> \<not> is_RequestException e)
       \<and> (\<forall>err e k. 1 \<le> k \<and> k \<le> retry_count
              \<and> (\<forall>j. 0 \<le> j \<and> j < k - 1 \<longrightarrow> http_get fenv url j = Inl (RequestException (err j)))
              \<and> fst (try_download fenv (Some 10) url img_path (k - 1) w) = Inl e
              \<and> \<not> is_RequestException e
            \<longrightarrow> fst (download_single_pokemon fenv (i, d, burl, retry_count) w) = Inl e)
       \<and> (\<forall>content. 1 \<le> retry_count
              \<and> http_get fenv url 0 = Inr content
              \<and> file_write fenv img_path content \<noteq> Written
            \<longrightarrow> (\<exists>m. fst (download_single_pokemon fenv (i, d, burl, retry_count) w)
                        = Inl (OSError m)))
       \<and> (\<forall>e. (\<forall>fs. mset (as_completed fenv fs) = mset fs)
              \<and> os_makedirs fenv d w = Inr w0 \<and> 1 \<le> workers
              \<and> 1 \<le> i \<and> i \<le> n \<and> task i = Inl e
            \<longrightarrow> (\<exists>e'. fst (download_pokemon_summary fenv n d workers w) = Inl e'
                     \<and> fst (download_pokemon fenv n d workers w) = Inl e'
                     \<and> \<not> is_RequestException e'))
       \<and> (os_makedirs fenv d w = Inr w0 \<and> 1 \<le> workers
            \<longrightarrow> fst (submit_downloads fenv (map (\<lambda>j. (j, d, base_url, 2)) [1..n]) w0)
                  = map (\<lambda>j. ((j, d, base_url, 2), task j)) [1..n]
                \<and> (\<forall>j. 1 \<le> j \<and> j \<le> n \<and> task j = Inr (True, file_name_of j)
                      \<longrightarrow> os_path_join d (file_name_of j)
                            \<in> file_paths (snd (download_pokemon_summary fenv n d workers w))))"
proof (intro conjI allI impI)
  fix e w1 assume "try_process tenv (image_name, dir_origin, dir_name) wt = (Inl e, w1)"
  then show "process_single_image tenv (image_name, dir_origin, dir_name) wt
              = ([PyBool False, PyStr image_name, PyStr (str_exn e)], w1)"
    unfolding process_single_image_try by simp
next
  assume h: "(\<forall>fs. mset (as_completed tenv fs) = mset fs)
            \<and> os_makedirs tenv dir_name wt = Inr wt0
            \<and> os_listdir tenv wt0 dir_origin = Inr names
            \<and> 1 \<le> max_workers"
  then have order: "\<And>fs. mset (as_completed tenv fs) = mset fs" by simp
  from h have mk: "os_makedirs tenv dir_name wt = Inr wt0"
    and ls: "os_listdir tenv wt0 dir_origin = Inr names" and mw: "1 \<le> max_workers" by simp_all
  from process_pokemon_summary_value[OF order mk ls mw]
  obtain summary where
    s: "fst (process_pokemon_summary tenv dir_origin dir_name max_workers wt) = Inr summary"
    by blast
  then show "\<exists>summary. fst (process_pokemon_summary tenv dir_origin dir_name max_workers wt)
                            = Inr summary" by blast
  assume "total_time tenv \<noteq> 0"
  with s show "fst (process_pokemon tenv dir_origin dir_name max_workers wt) = Inr (total_time tenv)"
    by (rule process_pokemon_returns)
next
  fix err
  assume h: "1 \<le> retry_count
              \<and> (\<forall>j. 0 \<le> j \<and> j < retry_count \<longrightarrow> http_get fenv url j = Inl (RequestException (err j)))"
  show "fst (download_single_pokemon fenv (i, d, burl, retry_count) w) = Inr (False, file_name_of i)"
    unfolding download_single_pokemon_loop
    using attempt_loop_all_fail[of 0 retry_count fenv url err d "file_name_of i" w] h
    by (simp add: url_def)
next
  fix e assume "fst (download_single_pokemon fenv (i, d, burl, retry_count) w) = Inl e"
  then show "\<not> is_RequestException e"
    unfolding download_single_pokemon_loop by (rule attempt_loop_no_request_exception)
next
  fix err e k
  assume h: "1 \<le> k \<and> k \<le> retry_count
              \<and> (\<forall>j. 0 \<le> j \<and> j < k - 1 \<longrightarrow> http_get fenv url j = Inl (RequestException (err j)))
              \<and> fst (try_download fenv (Some 10) url img_path (k - 1) w) = Inl e
              \<and> \<not> is_RequestException e"
  show "fst (download_single_pokemon fenv (i, d, burl, retry_count) w) = Inl e"
    unfolding download_single_pokemon_loop
    using attempt_loop_raises_at[of 0 "k - 1" fenv url err retry_count d "file_name_of i" w e] h
    by (simp add: url_def img_path_def)
next
  fix content
  assume h: "1 \<le> retry_count
              \<and> http_get fenv url 0 = Inr content
              \<and> file_write fenv img_path content \<noteq> Written"
  then obtain m where m: "fst (try_download fenv (Some 10) url img_path 0 w) = Inl (OSError m)"
    by (cases "file_write fenv img_path content") (auto simp: try_download_cases)
  have none: "\<forall>j. (0::int) \<le> j \<and> j < 0 \<longrightarrow> http_get fenv url j = Inl (RequestException [])"
    by auto
  have first: "(0::int) \<le> 0" and budget: "0 < retry_count" using h by simp_all
  have m': "fst (try_download fenv (Some 10) url (os_path_join d (file_name_of i)) 0 w)
      = Inl (OSError m)"
    using m unfolding img_path_def .
  have other: "\<not> is_RequestException (OSError m)" by simp
  have "fst (download_single_pokemon fenv (i, d, burl, retry_count) w) = Inl (OSError m)"
    unfolding download_single_pokemon_loop url_def[symmetric]
    using attempt_loop_raises_at[of 0 0 fenv url "\<lambda>j. []", OF none first budget m' other]
    by simp
  then show "\<exists>m. fst (download_single_pokemon fenv (i, d, burl, retry_count) w) = Inl (OSError m)"
    by blast
next
  fix e
  assume h: "(\<forall>fs. mset (as_completed fenv fs) = mset fs)
              \<and> os_makedirs fenv d w = Inr w0 \<and> 1 \<le> workers
              \<and> 1 \<le> i \<and> i \<le> n \<and> task i = Inl e"
  then have order: "\<And>fs. mset (as_completed fenv fs) = mset fs" by simp
  from h have mk: "os_makedirs fenv d w = Inr w0" and mw: "1 \<le> workers"
    and i: "1 \<le> i" "i \<le> n"
    and e: "fst (download_single_pokemon fenv (i, d, base_url, 2) w0) = Inl e"
    unfolding task_def by simp_all
  from download_pokemon_summary_task_raises[OF order mk mw i e]
  obtain j e' where r: "fst (download_single_pokemon fenv (j, d, base_url, 2) w0) = Inl e'"
    and s: "fst (download_pokemon_summary fenv n d workers w) = Inl e'" by blast
  have "\<not> is_RequestException e'"
    using r unfolding download_single_pokemon_loop by (rule attempt_loop_no_request_exception)
  moreover have "fst (download_pokemon fenv n d workers w) = Inl e'"
    using s by (rule download_pokemon_raises)
  ultimately show "\<exists>e'. fst (download_pokemon_summary fenv n d workers w) = Inl e'
                     \<and> fst (download_pokemon fenv n d workers w) = Inl e'
                     \<and> \<not> is_RequestException e'"
    using s by blast
next
  assume h: "os_makedirs fenv d w = Inr w0 \<and> 1 \<le> workers"
  show "fst (submit_downloads fenv (map (\<lambda>j. (j, d, base_url, 2)) [1..n]) w0)
                  = map (\<lambda>j. ((j, d, base_url, 2), task j)) [1..n]"
    unfolding task_def submit_downloads_futures by (simp add: comp_def)
next
  fix j
  assume h: "os_makedirs fenv d w = Inr w0 \<and> 1 \<le> workers"
    and j: "1 \<le> j \<and> j \<le> n \<and> task j = Inr (True, file_name_of j)"
  from h have mk: "os_makedirs fenv d w = Inr w0" and mw: "1 \<le> workers" by simp_all
  have "j \<in> set [1..n]" using j by simp
  moreover have "fst (download_single_pokemon fenv (j, d, base_url, 2) w0)
      = Inr (True, file_name_of j)"
    using j unfolding task_def by simp
  ultimately have "os_path_join d (file_name_of j)
      \<in> file_paths (snd (submit_downloads fenv (map (\<lambda>i. (i, d, base_url, 2)) [1..n]) w0))"
    using submit_downloads_files[of fenv d base_url 2 "[1..n]" w0] by blast
  then show "os_path_join d (file_name_of j)
                            \<in> file_paths (snd (download_pokemon_summary fenv n d workers w))"
    unfolding download_pokemon_summary_world[OF mk mw] .
qed

lemma file_name_of_1: "file_name_of 1 = ''001.png''"
  by code_simp

lemma file_name_of_3: "file_name_of 3 = ''003.png''"
  by code_simp

lemma one_unwritable_task_3:
  "fst (download_single_pokemon one_unwritable_env (3, ''pokemon_dataset'', base_url, 2)
          (empty_world\<lparr>dirs := [''pokemon_dataset/'']\<rparr>))
     = Inr (True, ''003.png'')"
  by code_simp

lemma third_path: "os_path_join ''pokemon_dataset'' ''003.png'' = ''pokemon_dataset/003.png''"
  by code_simp

lemma dead_order: "mset (as_completed dead_env fs) = mset fs"
  by (simp add: dead_env_def)

theorem task_errors_at_the_boundary_witness:
  "process_single_image toy_env (''003.png'', ''pokemon_dataset'', ''pokemon_processed'') dataset_world
     = ([PyBool False, PyStr ''003.png'', PyStr ''cannot identify image file''], dataset_world)
   \<and> fst (process_pokemon toy_env ''pokemon_dataset'' ''pokemon_processed'' 8 dataset_world) = Inr 2
   \<and> fst (download_single_pokemon dead_env (1, ''pokemon_dataset'', base_url, 2) empty_world)
       = Inr (False, ''001.png'')
   \<and> (\<exists>m. fst (download_single_pokemon readonly_env (1, ''pokemon_dataset'', base_url, 2) empty_world)
            = Inl (OSError m))
   \<and> (\<exists>e. fst (download_pokemon one_unwritable_env 3 ''pokemon_dataset'' 32 empty_world) = Inl e
          \<and> \<not> is_RequestException e)
   \<and> ''pokemon_dataset/003.png''
        \<in> file_paths (snd (download_pokemon_summary one_unwritable_env 3 ''pokemon_dataset'' 32
                              empty_world))"
proof -
  let ?w0 = "empty_world\<lparr>dirs := [''pokemon_dataset/'']\<rparr>"
  let ?wt0 = "dataset_world\<lparr>dirs := [''pokemon_processed/'']\<rparr>"
  note transform = task_errors_at_the_boundary[where tenv = toy_env
      and image_name = "''003.png''" and dir_origin = "''pokemon_dataset''"
      and dir_name = "''pokemon_processed''" and wt = dataset_world and ?wt0.0 = ?wt0
      and names = "[''002.png'', ''001.png'', ''notes.txt'', ''003.png'', ''old'']"
      and max_workers = 8]
  have c1: "process_single_image toy_env (''003.png'', ''pokemon_dataset'', ''pokemon_processed'')
        dataset_world
     = ([PyBool False, PyStr ''003.png'', PyStr ''cannot identify image file''], dataset_world)"
    using transform[THEN conjunct1, rule_format, OF toy_bad_task] by simp
  have hyp2: "(\<forall>fs. mset (as_completed toy_env fs) = mset fs)
      \<and> os_makedirs toy_env ''pokemon_processed'' dataset_world = Inr ?wt0
      \<and> os_listdir toy_env ?wt0 ''pokemon_dataset''
          = Inr [''002.png'', ''001.png'', ''notes.txt'', ''003.png'', ''old'']
      \<and> (1::int) \<le> 8"
    using toy_order toy_makedirs toy_listdir by simp
  have t: "total_time toy_env \<noteq> 0" by (simp add: toy_env_def)
  have tt: "total_time toy_env = 2" by (simp add: toy_env_def)
  have "fst (process_pokemon toy_env ''pokemon_dataset'' ''pokemon_processed'' 8 dataset_world)
      = Inr (total_time toy_env)"
    using transform[THEN conjunct2, THEN conjunct1, rule_format, OF hyp2, THEN conjunct2,
      rule_format, OF t] .
  then have c2: "fst (process_pokemon toy_env ''pokemon_dataset'' ''pokemon_processed'' 8 dataset_world)
      = Inr 2"
    unfolding tt .
  have hyp3: "(1::int) \<le> 2
      \<and> (\<forall>j. 0 \<le> j \<and> j < 2 \<longrightarrow>
            http_get dead_env (base_url @ ''/'' @ file_name_of 1) j
              = Inl (RequestException ((\<lambda>j. ''404'') j)))"
    by (simp add: dead_env_def)
  have "fst (download_single_pokemon dead_env (1, ''pokemon_dataset'', base_url, 2) empty_world)
       = Inr (False, file_name_of 1)"
    using task_errors_at_the_boundary[where fenv = dead_env and i = 1
      and d = "''pokemon_dataset''" and burl = base_url and retry_count = 2 and w = empty_world,
      THEN conjunct2, THEN conjunct2, THEN conjunct1, rule_format, OF hyp3] .
  then have c3: "fst (download_single_pokemon dead_env (1, ''pokemon_dataset'', base_url, 2) empty_world)
       = Inr (False, ''001.png'')"
    unfolding file_name_of_1 .
  have hyp4: "(1::int) \<le> 2
      \<and> http_get readonly_env (base_url @ ''/'' @ file_name_of 1) 0 = Inr ''PNG''
      \<and> file_write readonly_env (os_path_join ''pokemon_dataset'' (file_name_of 1)) ''PNG''
          \<noteq> Written"
    by (simp add: readonly_env_def)
  have c4: "\<exists>m. fst (download_single_pokemon readonly_env (1, ''pokemon_dataset'', base_url, 2)
                      empty_world) = Inl (OSError m)"
    using task_errors_at_the_boundary[where fenv = readonly_env and i = 1
      and d = "''pokemon_dataset''" and burl = base_url and retry_count = 2 and w = empty_world,
      THEN conjunct2, THEN conjunct2, THEN conjunct2, THEN conjunct2, THEN conjunct2,
      THEN conjunct1, rule_format, OF hyp4] .
  note download = task_errors_at_the_boundary[where fenv = one_unwritable_env
      and d = "''pokemon_dataset''" and w = empty_world and ?w0.0 = ?w0 and n = 3
      and workers = 32]
  have hyp5: "(\<forall>fs. mset (as_completed one_unwritable_env fs) = mset fs)
      \<and> os_makedirs one_unwritable_env ''pokemon_dataset'' empty_world = Inr ?w0
      \<and> (1::int) \<le> 32 \<and> (1::int) \<le> 2 \<and> (2::int) \<le> 3
      \<and> fst (download_single_pokemon one_unwritable_env (2, ''pokemon_dataset'', base_url, 2) ?w0)
          = Inl (OSError (''[Errno 13] Permission denied: '' @ quoted ''pokemon_dataset/002.png''))"
    using one_unwritable_order one_unwritable_makedirs one_unwritable_task_2 by simp
  from download[where i = 2, THEN conjunct2, THEN conjunct2, THEN conjunct2, THEN conjunct2,
      THEN conjunct2, THEN conjunct2, THEN conjunct1, rule_format, OF hyp5]
  have c5: "\<exists>e. fst (download_pokemon one_unwritable_env 3 ''pokemon_dataset'' 32 empty_world) = Inl e
          \<and> \<not> is_RequestException e"
    by blast
  have hyp6: "os_makedirs one_unwritable_env ''pokemon_dataset'' empty_world = Inr ?w0
      \<and> (1::int) \<le> 32"
    using one_unwritable_makedirs by simp
  have third: "(1::int) \<le> 3 \<and> (3::int) \<le> 3
      \<and> fst (download_single_pokemon one_unwritable_env (3, ''pokemon_dataset'', base_url, 2) ?w0)
          = Inr (True, file_name_of 3)"
    unfolding file_name_of_3 using one_unwritable_task_3 by simp
  have "os_path_join ''pokemon_dataset'' (file_name_of 3)
      \<in> file_paths (snd (download_pokemon_summary one_unwritable_env 3 ''pokemon_dataset'' 32
                            empty_world))"
    using download[THEN conjunct2, THEN conjunct2, THEN conjunct2, THEN conjunct2,
      THEN conjunct2, THEN conjunct2, THEN conjunct2, rule_format, OF hyp6, THEN conjunct2,
      rule_format, OF third] .
  then have c6: "''pokemon_dataset/003.png''
      \<in> file_paths (snd (download_pokemon_summary one_unwritable_env 3 ''pokemon_dataset'' 32
                            empty_world))"
    unfolding file_name_of_3 third_path .
  show ?thesis
    by (intro conjI) (rule c1 c2 c3 c4 c5 c6)+
qed

text \<open>The claim as stated fails for a download whose file cannot be written: the error
  leaves the task, and the phase ends without a summary, with the error of the task whose
  future comes first.\<close>

theorem write_error_escapes_task_counterexample:
  "download_single_pokemon readonly_env (1, ''pokemon_dataset'', base_url, 2) empty_world
     = (Inl (OSError (''[Errno 13] Permission denied: '' @ quoted ''pokemon_dataset/001.png'')),
        \<lparr>files = [], dirs = [], trace = [HttpGet (base_url @ ''/001.png'') (Some 10)]\<rparr>)
   \<and> fst (download_pokemon_summary readonly_env 3 ''pokemon_dataset'' 32 empty_world)
       = Inl (OSError (''[Errno 13] Permission denied: '' @ quoted ''pokemon_dataset/003.png''))"
  by code_simp

end
